theory Spec2Isabelle
  imports Complex_Main "HOL-Library.Word" "HOL-Library.AList"
begin

section \<open>Python and NumPy primitives used by the analyzer\<close>

text \<open>
  The analyzer (\<^verbatim>\<open>backend/app/services/image_analyzer.py\<close>) computes with Python
  integers, with IEEE doubles and with 8-bit pixel channels. Integers are \<^typ>\<open>int\<close> or
  \<^typ>\<open>nat\<close>, channels are \<^typ>\<open>8 word\<close>, and doubles are \<^typ>\<open>real\<close> numbers. The
  thresholds, sums and quotients of the source are taken exactly. Where the source
  truncates or rounds a double and the binary rounding can change the result
  (\<^verbatim>\<open>int(font_size * 1.4)\<close>, \<^verbatim>\<open>round(x, 2)\<close>), the value is first rounded to the nearest
  double by \<open>to_double\<close>.

  Every \<^verbatim>\<open>raise\<close> is a value: a computation that may raise returns \<open>exn + 'a\<close>,
  with \<open>Inl\<close> the exception. The calls into OpenCV, scikit-learn, Tesseract and PIL are
  not part of the repository; what they return for an image is a parameter of the model
  (record \<open>externals\<close> below), and each of them may raise.
\<close>

datatype exn = ValueError | ZeroDivisionError | IndexError | LibraryError

type_synonym rgb8 = "8 word \<times> 8 word \<times> 8 word"

text \<open>A decoded image: \<^verbatim>\<open>image.shape[:2]\<close> and the pixel at row \<open>y\<close>, column \<open>x\<close>.\<close>

record ndimage =
  height :: nat
  width :: nat
  px :: "nat \<Rightarrow> nat \<Rightarrow> rgb8"

definition hex_digit :: "nat \<Rightarrow> char" where
  "hex_digit d = ''0123456789abcdef'' ! (d mod 16)"

function hex_str :: "nat \<Rightarrow> string" where
  "hex_str n = (if n < 16 then [hex_digit n] else hex_str (n div 16) @ [hex_digit n])"
  by pat_completeness auto
termination
  by (relation "measure id") auto

text \<open>\<^verbatim>\<open>"{:02x}".format(n)\<close>: lower-case hexadecimal, zero-padded to two characters,
  the sign counted in the width.\<close>

definition fmt_02x :: "int \<Rightarrow> string" where
  "fmt_02x n =
     (let s = (if n < 0 then CHR ''-'' # hex_str (nat (- n)) else hex_str (nat n))
      in replicate (2 - length s) CHR ''0'' @ s)"

definition hex_color :: "int \<Rightarrow> int \<Rightarrow> int \<Rightarrow> string" where
  "hex_color r g b = CHR ''#'' # fmt_02x r @ fmt_02x g @ fmt_02x b"

definition dec_digit :: "nat \<Rightarrow> char" where
  "dec_digit d = ''0123456789'' ! (d mod 10)"

function str_nat :: "nat \<Rightarrow> string" where
  "str_nat n = (if n < 10 then [dec_digit n] else str_nat (n div 10) @ [dec_digit n])"
  by pat_completeness auto
termination
  by (relation "measure id") auto

text \<open>\<^verbatim>\<open>str(n)\<close> of a Python integer, as an f-string prints it.\<close>

definition str_int :: "int \<Rightarrow> string" where
  "str_int n = (if n < 0 then CHR ''-'' # str_nat (nat (- n)) else str_nat (nat n))"

text \<open>\<^verbatim>\<open>int(x)\<close> of a float and \<^verbatim>\<open>ndarray.astype(int)\<close>: truncation towards zero.\<close>

definition py_int :: "real \<Rightarrow> int" where
  "py_int x = (if 0 \<le> x then \<lfloor>x\<rfloor> else \<lceil>x\<rceil>)"

text \<open>Rounding half to even, as \<^verbatim>\<open>round\<close> and \<^verbatim>\<open>np.round\<close> do.\<close>

definition round_half_even :: "real \<Rightarrow> int" where
  "round_half_even x =
     (let f = \<lfloor>x\<rfloor>; d = x - of_int f
      in if d < 1 / 2 then f else if 1 / 2 < d then f + 1 else if even f then f else f + 1)"

text \<open>\<^verbatim>\<open>int.bit_length\<close>.\<close>

function bit_length :: "nat \<Rightarrow> nat" where
  "bit_length n = (if n = 0 then 0 else Suc (bit_length (n div 2)))"
  by pat_completeness auto
termination
  by (relation "measure id") auto

text \<open>The binary exponent \<open>e\<close> of a positive real: \<open>2 ^ e \<le> a < 2 ^ (e + 1)\<close>.\<close>

definition float_exponent :: "real \<Rightarrow> int" where
  "float_exponent a =
     (if 1 \<le> a then int (bit_length (nat \<lfloor>a\<rfloor>)) - 1
      else - int (bit_length (nat (\<lceil>1 / a\<rceil> - 1))))"

definition pow2 :: "int \<Rightarrow> real" where
  "pow2 e = (if 0 \<le> e then 2 ^ nat e else 1 / 2 ^ nat (- e))"

text \<open>The IEEE double nearest to a real, ties to the even significand: 53 significant
  bits, so the spacing of the doubles around \<open>x\<close> is \<open>2 ^ (e - 52)\<close>. This is the result of
  one correctly rounded operation whose exact value is \<open>x\<close>, for magnitudes in the normal
  range of doubles.\<close>

definition to_double :: "real \<Rightarrow> real" where
  "to_double x =
     (if x = 0 then 0
      else let a = \<bar>x\<bar>; ulp = pow2 (float_exponent a - 52)
           in sgn x * (of_int (round_half_even (a / ulp)) * ulp))"

text \<open>The double that the literal \<^verbatim>\<open>1.4\<close> denotes.\<close>

definition double_1_4 :: real where
  "double_1_4 = 6305039478318694 / 4503599627370496"

text \<open>\<^verbatim>\<open>round(x, 2)\<close> of a double: the exact value of the double is rounded to two
  decimals, half to even, and the result is the double nearest to that decimal.\<close>

definition round2 :: "real \<Rightarrow> real" where
  "round2 x = to_double (of_int (round_half_even (to_double x * 100)) / 100)"

text \<open>The index range of a slice \<^verbatim>\<open>a[start:stop]\<close> of an axis of length \<open>n\<close>: a negative
  bound counts from the end, and both bounds are clipped to the axis.\<close>

definition slice_bound :: "nat \<Rightarrow> int \<Rightarrow> nat" where
  "slice_bound n i = (let j = (if i < 0 then i + int n else i) in nat (min (int n) (max 0 j)))"

definition slice_range :: "nat \<Rightarrow> int \<Rightarrow> int \<Rightarrow> nat list" where
  "slice_range n start stop = [slice_bound n start ..< slice_bound n stop]"

text \<open>\<^verbatim>\<open>image[y:y+h, x:x+w].reshape(-1, 3)\<close>: the pixels of the region, row by row.\<close>

definition region_pixels :: "ndimage \<Rightarrow> int \<Rightarrow> int \<Rightarrow> int \<Rightarrow> int \<Rightarrow> rgb8 list" where
  "region_pixels im x y w h =
     concat (map (\<lambda>row. map (\<lambda>col. px im row col) (slice_range (width im) x (x + w)))
                 (slice_range (height im) y (y + h)))"

text \<open>\<^verbatim>\<open>np.mean(pixels, axis=0)\<close> followed by \<^verbatim>\<open>int(...)\<close> of each channel and the
  hexadecimal formatting. The mean of no pixels is \<^verbatim>\<open>nan\<close>, and \<^verbatim>\<open>int(nan)\<close> raises
  \<^verbatim>\<open>ValueError\<close>. For channel sums the truncated mean is the integer quotient.\<close>

definition mean_hex :: "rgb8 list \<Rightarrow> exn + string" where
  "mean_hex ps =
     (if ps = [] then Inl ValueError
      else let n = length ps;
               r = sum_list (map (\<lambda>(r, g, b). unat r) ps) div n;
               g = sum_list (map (\<lambda>(r, g, b). unat g) ps) div n;
               b = sum_list (map (\<lambda>(r, g, b). unat b) ps) div n
           in Inr (hex_color (int r) (int g) (int b)))"

section \<open>Result models (\<^verbatim>\<open>analysis_models.py\<close>)\<close>

datatype ElementType =
  HEADER | NAVBAR | SIDEBAR | FOOTER | BUTTON | INPUT | FORM | CARD | IMAGE | TEXT | ICON
  | CONTAINER

datatype LayoutType = FLEXBOX | GRID | BLOCK | INLINE | ABSOLUTE | RELATIVE

text \<open>\<^verbatim>\<open>LayoutType\<close> is a \<^verbatim>\<open>str\<close> enumeration: a member is the string of its value.\<close>

fun layout_value :: "LayoutType \<Rightarrow> string" where
  "layout_value FLEXBOX = ''flexbox''"
| "layout_value GRID = ''grid''"
| "layout_value BLOCK = ''block''"
| "layout_value INLINE = ''inline''"
| "layout_value ABSOLUTE = ''absolute''"
| "layout_value RELATIVE = ''relative''"

record ColorInfo =
  hex_code :: string
  rgb :: "int \<times> int \<times> int"
  usage_context :: string
  color_element_type :: string
  confidence :: real

section \<open>Color extractor\<close>

text \<open>\<^verbatim>\<open>_determine_color_usage(rgb, percentage)\<close>.\<close>

definition determine_color_usage :: "int \<times> int \<times> int \<Rightarrow> real \<Rightarrow> string" where
  "determine_color_usage c percentage =
     (case c of (r, g, b) \<Rightarrow>
        if percentage > 0.3 then ''Background''
        else if r < 100 \<and> g < 100 \<and> b < 100 then ''Text''
        else let saturation = max r (max g b) - min r (min g b)
             in if 0.1 \<le> percentage \<and> percentage \<le> 0.3 \<and> saturation > 50
                then ''Primary/Accent''
                else if saturation < 30 then ''Border/Divider''
                else ''UI Element'')"

text \<open>What \<^verbatim>\<open>KMeans(...).fit(pixels)\<close> leaves in \<^verbatim>\<open>cluster_centers_\<close> and
  \<^verbatim>\<open>labels_\<close>.\<close>

record kmeans_fit =
  cluster_centers :: "(real \<times> real \<times> real) list"
  labels :: "nat list"

text \<open>\<^verbatim>\<open>np.unique(labels, return_counts=True)\<close>: the distinct labels in increasing order,
  each with the number of its occurrences.\<close>

definition np_unique_counts :: "nat list \<Rightarrow> (nat \<times> nat) list" where
  "np_unique_counts ls = map (\<lambda>u. (u, count_list ls u)) (sort (remdups ls))"

definition color_percentages :: "nat list \<Rightarrow> real list" where
  "color_percentages ls =
     map (\<lambda>(u, c). real c / real (length ls)) (np_unique_counts ls)"

definition centers_astype_int :: "(real \<times> real \<times> real) list \<Rightarrow> (int \<times> int \<times> int) list" where
  "centers_astype_int cs = map (\<lambda>(r, g, b). (py_int r, py_int g, py_int b)) cs"

definition color_info :: "int \<times> int \<times> int \<Rightarrow> real \<Rightarrow> ColorInfo" where
  "color_info center percentage =
     (case center of (r, g, b) \<Rightarrow>
        \<lparr>hex_code = hex_color r g b,
         rgb = (r, g, b),
         usage_context = determine_color_usage center percentage,
         color_element_type = ''detected'',
         confidence = percentage\<rparr>)"

text \<open>The loop over \<^verbatim>\<open>zip(centers, color_percentages)\<close>, appending one sample each.\<close>

fun colors_loop :: "((int \<times> int \<times> int) \<times> real) list \<Rightarrow> ColorInfo list \<Rightarrow> ColorInfo list" where
  "colors_loop [] colors = colors"
| "colors_loop ((center, percentage) # rest) colors =
     colors_loop rest (colors @ [color_info center percentage])"

text \<open>\<^verbatim>\<open>colors.sort(key=lambda x: x.confidence, reverse=True)\<close>: a stable sort, descending;
  samples of equal confidence keep their order.\<close>

definition sort_by_confidence_desc :: "ColorInfo list \<Rightarrow> ColorInfo list" where
  "sort_by_confidence_desc cs = rev (sort_key confidence (rev cs))"

definition colors_of_fit :: "kmeans_fit \<Rightarrow> ColorInfo list" where
  "colors_of_fit km =
     (let centers = centers_astype_int (cluster_centers km);
          colors = colors_loop (zip centers (color_percentages (labels km))) []
      in take 6 (sort_by_confidence_desc colors))"

text \<open>\<^verbatim>\<open>_extract_colors\<close>: any exception inside the stage gives the empty list.\<close>

definition extract_colors :: "exn + kmeans_fit \<Rightarrow> ColorInfo list" where
  "extract_colors fit = (case fit of Inl e \<Rightarrow> [] | Inr km \<Rightarrow> colors_of_fit km)"

section \<open>Strings\<close>

text \<open>A Python \<^verbatim>\<open>str\<close> that comes from outside (OCR text, the file name, rendered
  markdown) is a list of Unicode code points; the fixed ASCII labels of the source are
  HOL strings.\<close>

type_synonym ustr = "nat list"

text \<open>The whitespace that \<^verbatim>\<open>str.strip()\<close> and \<^verbatim>\<open>str.split()\<close> recognise.\<close>

definition py_isspace :: "nat \<Rightarrow> bool" where
  "py_isspace c \<longleftrightarrow>
     (9 \<le> c \<and> c \<le> 13) \<or> (28 \<le> c \<and> c \<le> 32) \<or> c = 133 \<or> c = 160 \<or> c = 5760
     \<or> (8192 \<le> c \<and> c \<le> 8202) \<or> c = 8232 \<or> c = 8233 \<or> c = 8239 \<or> c = 8287 \<or> c = 12288"

definition py_strip :: "ustr \<Rightarrow> ustr" where
  "py_strip s = rev (dropWhile py_isspace (rev (dropWhile py_isspace s)))"

text \<open>\<^verbatim>\<open>len(s.split())\<close>: the number of maximal runs of non-whitespace.\<close>

fun count_words :: "bool \<Rightarrow> ustr \<Rightarrow> nat" where
  "count_words in_word [] = 0"
| "count_words in_word (c # cs) =
     (if py_isspace c then count_words False cs
      else (if in_word then 0 else 1) + count_words True cs)"

text \<open>\<^verbatim>\<open>xs[i]\<close> for a non-negative index.\<close>

definition getitem :: "'a list \<Rightarrow> nat \<Rightarrow> exn + 'a" where
  "getitem xs i = (if i < length xs then Inr (xs ! i) else Inl IndexError)"

section \<open>Screenshot classifier\<close>

text \<open>For each external contour of the Canny edge map: the number of vertices of its
  polygon approximation (\<^verbatim>\<open>len(approx)\<close>) and \<^verbatim>\<open>cv2.contourArea(contour)\<close>.\<close>

type_synonym approx_contour = "nat \<times> real"

fun count_rectangular :: "ndimage \<Rightarrow> approx_contour list \<Rightarrow> nat \<Rightarrow> nat" where
  "count_rectangular im [] rectangular_regions = rectangular_regions"
| "count_rectangular im ((n_vertices, area) # rest) rectangular_regions =
     (if n_vertices = 4 \<and> area > real (width im * height im) * 0.01
      then count_rectangular im rest (rectangular_regions + 1)
      else count_rectangular im rest rectangular_regions)"

definition is_website_screenshot_body :: "ndimage \<Rightarrow> exn + approx_contour list \<Rightarrow> exn + bool" where
  "is_website_screenshot_body im found =
     (if height im = 0 then Inl ZeroDivisionError
      else let aspect_ratio = real (width im) / real (height im)
           in case found of
                Inl e \<Rightarrow> Inl e
              | Inr contours \<Rightarrow>
                  let rectangular_regions = count_rectangular im contours 0
                  in Inr (0.5 \<le> aspect_ratio \<and> aspect_ratio \<le> 3.0
                          \<and> rectangular_regions \<ge> 3
                          \<and> width im \<ge> 300 \<and> height im \<ge> 200))"

text \<open>\<^verbatim>\<open>_is_website_screenshot\<close>: any exception means "assume it is a website".\<close>

definition is_website_screenshot :: "ndimage \<Rightarrow> exn + approx_contour list \<Rightarrow> bool" where
  "is_website_screenshot im found =
     (case is_website_screenshot_body im found of Inl e \<Rightarrow> True | Inr is_website \<Rightarrow> is_website)"

section \<open>Layout analyzer\<close>

record LayoutStructure =
  layout_type :: LayoutType
  grid_structure :: "string option"
  flexbox_properties :: "(string \<times> string) list option"
  spacing :: "(string \<times> string) list"
  alignment :: string
  responsive_hints :: "string list option"

text \<open>The two results of \<^verbatim>\<open>cv2.HoughLinesP\<close>: \<^verbatim>\<open>None\<close>, or an array of that many
  segments.\<close>

type_synonym hough_lines = "nat option \<times> nat option"

definition len_or_zero :: "nat option \<Rightarrow> nat" where
  "len_or_zero ls = (case ls of None \<Rightarrow> 0 | Some n \<Rightarrow> n)"

definition analyze_layout_body :: "ndimage \<Rightarrow> exn + hough_lines \<Rightarrow> exn + LayoutStructure" where
  "analyze_layout_body im found =
     (case found of
        Inl e \<Rightarrow> Inl e
      | Inr (h_lines, v_lines) \<Rightarrow>
          let h_count = len_or_zero h_lines;
              v_count = len_or_zero v_lines;
              (lt, gs) =
                (if h_count \<ge> 2 \<and> v_count \<ge> 2
                 then (GRID, Some (''Estimated '' @ str_nat (v_count + 1) @ '' columns, ''
                                   @ str_nat (h_count + 1) @ '' rows''))
                 else (FLEXBOX, None))
          in Inr \<lparr>layout_type = lt,
                  grid_structure = gs,
                  flexbox_properties = None,
                  spacing = [(''padding'', ''16px (estimated)''),
                             (''margin'', ''12px (estimated)''),
                             (''gap'', ''8px (estimated)'')],
                  alignment = ''left-aligned (estimated)'',
                  responsive_hints =
                    Some (if width im > 768 then [''Desktop layout detected'']
                          else [''Mobile layout detected''])\<rparr>)"

definition layout_fallback :: LayoutStructure where
  "layout_fallback =
     \<lparr>layout_type = FLEXBOX,
      grid_structure = None,
      flexbox_properties = None,
      spacing = [(''padding'', ''unknown''), (''margin'', ''unknown''), (''gap'', ''unknown'')],
      alignment = ''unknown'',
      responsive_hints = None\<rparr>"

definition analyze_layout :: "ndimage \<Rightarrow> exn + hough_lines \<Rightarrow> LayoutStructure" where
  "analyze_layout im found =
     (case analyze_layout_body im found of Inl e \<Rightarrow> layout_fallback | Inr layout \<Rightarrow> layout)"

section \<open>Typography extractor\<close>

record Typography =
  font_family :: string
  font_size :: string
  font_weight :: string
  color :: string
  text_content :: ustr
  typo_element_type :: string
  text_alignment :: string
  line_height :: "string option"
  letter_spacing :: "string option"

text \<open>The columns of \<^verbatim>\<open>pytesseract.image_to_data(..., output_type=Output.DICT)\<close> that
  the analyzer reads.\<close>

record ocr_data =
  ocr_text :: "ustr list"
  ocr_left :: "int list"
  ocr_top :: "int list"
  ocr_width :: "int list"
  ocr_height :: "int list"

text \<open>\<^verbatim>\<open>max(12, int(height * 0.8))\<close>. The product is taken exactly: the double \<^verbatim>\<open>0.8\<close> lies
  just above \<open>4/5\<close>, so for the height of a box in an image the double product has the
  integer part of \<open>4 * height / 5\<close>.\<close>

definition estimate_font_size :: "int \<Rightarrow> int" where
  "estimate_font_size h = max 12 (py_int (real_of_int h * 0.8))"

definition classify_text :: "int \<Rightarrow> string \<times> string" where
  "classify_text fs =
     (if fs > 24 then (''heading'', ''bold'')
      else if fs > 18 then (''subheading'', ''semi-bold'')
      else (''body'', ''normal''))"

text \<open>The average color of the token's box, black when the box leaves the image or is
  empty. A non-empty region has a mean, so \<^verbatim>\<open>int(avg_color[k])\<close> cannot raise here.\<close>

definition text_color_of :: "ndimage \<Rightarrow> int \<Rightarrow> int \<Rightarrow> int \<Rightarrow> int \<Rightarrow> string" where
  "text_color_of im x y w h =
     (if x \<ge> 0 \<and> y \<ge> 0 \<and> x + w \<le> int (width im) \<and> y + h \<le> int (height im)
      then (case mean_hex (region_pixels im x y w h) of
              Inr text_color \<Rightarrow> text_color
            | Inl e \<Rightarrow> ''#000000'')
      else ''#000000'')"

definition typography_record :: "ndimage \<Rightarrow> ustr \<Rightarrow> int \<Rightarrow> int \<Rightarrow> int \<Rightarrow> int \<Rightarrow> Typography" where
  "typography_record im txt x y w h =
     (let fs = estimate_font_size h;
          (kind, weight) = classify_text fs
      in \<lparr>font_family = ''System font (estimated)'',
          font_size = str_int fs @ ''px'',
          font_weight = weight,
          color = text_color_of im x y w h,
          text_content = take 100 (py_strip txt),
          typo_element_type = kind,
          text_alignment = ''left'',
          line_height =
            Some (str_int (py_int (to_double (real_of_int fs * double_1_4))) @ ''px''),
          letter_spacing = None\<rparr>)"

text \<open>The loop \<^verbatim>\<open>for i, text in enumerate(data['text'])\<close>; \<open>i\<close> is the index of the head of
  the remaining texts.\<close>

fun typography_loop ::
  "ndimage \<Rightarrow> ocr_data \<Rightarrow> nat \<Rightarrow> ustr list \<Rightarrow> Typography list \<Rightarrow> exn + Typography list" where
  "typography_loop im data i [] typography_elements = Inr typography_elements"
| "typography_loop im data i (txt # rest) typography_elements =
     (if py_strip txt \<noteq> [] then
        (case getitem (ocr_height data) i of Inl e \<Rightarrow> Inl e | Inr h \<Rightarrow>
        (case getitem (ocr_left data) i of Inl e \<Rightarrow> Inl e | Inr x \<Rightarrow>
        (case getitem (ocr_top data) i of Inl e \<Rightarrow> Inl e | Inr y \<Rightarrow>
        (case getitem (ocr_width data) i of Inl e \<Rightarrow> Inl e | Inr w \<Rightarrow>
           typography_loop im data (i + 1) rest
             (typography_elements @ [typography_record im txt x y w h])))))
      else typography_loop im data (i + 1) rest typography_elements)"

definition analyze_typography_body :: "ndimage \<Rightarrow> exn + ocr_data \<Rightarrow> exn + Typography list" where
  "analyze_typography_body im found =
     (case found of
        Inl e \<Rightarrow> Inl e
      | Inr data \<Rightarrow>
          (case typography_loop im data 0 (ocr_text data) [] of
             Inl e \<Rightarrow> Inl e
           | Inr typography_elements \<Rightarrow> Inr (take 10 typography_elements)))"

definition analyze_typography :: "ndimage \<Rightarrow> exn + ocr_data \<Rightarrow> Typography list" where
  "analyze_typography im found =
     (case analyze_typography_body im found of Inl e \<Rightarrow> [] | Inr ts \<Rightarrow> ts)"

section \<open>Interactive element detector\<close>

record InteractiveElement =
  element_type :: ElementType
  position :: "(string \<times> int) list"
  dimensions :: "(string \<times> int) list"
  styling :: "(string \<times> string) list"
  states :: "(string \<times> string) list option"
  element_text_content :: "ustr option"

text \<open>A contour as the analyzer sees it: \<^verbatim>\<open>cv2.contourArea\<close> and
  \<^verbatim>\<open>cv2.boundingRect\<close> (\<open>x, y, w, h\<close>).\<close>

record contour =
  contour_area :: real
  bounding_rect :: "int \<times> int \<times> int \<times> int"

definition classify_element :: "int \<Rightarrow> int \<Rightarrow> ElementType" where
  "classify_element w h =
     (let aspect_ratio = real_of_int w / real_of_int h
      in if 1.5 \<le> aspect_ratio \<and> aspect_ratio \<le> 6.0 \<and> 20 \<le> h \<and> h \<le> 100 then BUTTON
         else if aspect_ratio > 3.0 \<and> h \<le> 50 then INPUT
         else CONTAINER)"

text \<open>The record appended for a contour that passed the area filter; \<open>bg_color\<close> is the
  formatted mean of its region.\<close>

definition interactive_element :: "int \<times> int \<times> int \<times> int \<Rightarrow> string \<Rightarrow> InteractiveElement" where
  "interactive_element r bg_color =
     (case r of (x, y, w, h) \<Rightarrow>
        \<lparr>element_type = classify_element w h,
         position = [(''x'', x), (''y'', y)],
         dimensions = [(''width'', w), (''height'', h)],
         styling = [(''background_color'', bg_color),
                    (''border_radius'', ''4px (estimated)''),
                    (''padding'', ''8px 16px (estimated)'')],
         states = None,
         element_text_content = None\<rparr>)"

definition area_in_range :: "ndimage \<Rightarrow> contour \<Rightarrow> bool" where
  "area_in_range im c \<longleftrightarrow>
     500 < contour_area c \<and> contour_area c < real (width im * height im) * 0.1"

text \<open>The body of the loop for one contour that passed the area filter: the division by
  the height of the bounding rectangle and the mean of its region can raise.\<close>

definition element_of :: "ndimage \<Rightarrow> contour \<Rightarrow> exn + InteractiveElement" where
  "element_of im c =
     (case bounding_rect c of (x, y, w, h) \<Rightarrow>
        if h = 0 then Inl ZeroDivisionError
        else (case mean_hex (region_pixels im x y w h) of
                Inl e \<Rightarrow> Inl e
              | Inr bg_color \<Rightarrow> Inr (interactive_element (x, y, w, h) bg_color)))"

fun elements_loop ::
  "ndimage \<Rightarrow> contour list \<Rightarrow> InteractiveElement list \<Rightarrow> exn + InteractiveElement list" where
  "elements_loop im [] interactive_elements = Inr interactive_elements"
| "elements_loop im (c # rest) interactive_elements =
     (if area_in_range im c then
        (case element_of im c of
           Inl e \<Rightarrow> Inl e
         | Inr element \<Rightarrow> elements_loop im rest (interactive_elements @ [element]))
      else elements_loop im rest interactive_elements)"

definition detect_interactive_elements_body ::
  "ndimage \<Rightarrow> exn + contour list \<Rightarrow> exn + InteractiveElement list" where
  "detect_interactive_elements_body im found =
     (case found of
        Inl e \<Rightarrow> Inl e
      | Inr contours \<Rightarrow>
          (case elements_loop im contours [] of
             Inl e \<Rightarrow> Inl e
           | Inr interactive_elements \<Rightarrow> Inr (take 15 interactive_elements)))"

definition detect_interactive_elements ::
  "ndimage \<Rightarrow> exn + contour list \<Rightarrow> InteractiveElement list" where
  "detect_interactive_elements im found =
     (case detect_interactive_elements_body im found of Inl e \<Rightarrow> [] | Inr es \<Rightarrow> es)"

section \<open>Asset cataloger\<close>

record Asset =
  asset_type :: string
  asset_dimensions :: "(string \<times> int) list"
  asset_position :: "(string \<times> int) list"
  alt_text_intent :: "string option"
  file_format :: "string option"

text \<open>\<^verbatim>\<open>cv2.HoughCircles\<close> returns \<^verbatim>\<open>None\<close> or rows \<open>(x, y, r)\<close> of floats; the second
  component is the list of external contours of the edge map.\<close>

type_synonym asset_shapes = "(real \<times> real \<times> real) list option \<times> contour list"

definition icon_asset :: "real \<times> real \<times> real \<Rightarrow> Asset" where
  "icon_asset c =
     (case c of (cx, cy, cr) \<Rightarrow>
        let x = round_half_even cx; y = round_half_even cy; r = round_half_even cr
        in \<lparr>asset_type = ''icon'',
            asset_dimensions = [(''width'', r * 2), (''height'', r * 2)],
            asset_position = [(''x'', x - r), (''y'', y - r)],
            alt_text_intent = Some ''Circular icon/logo'',
            file_format = None\<rparr>)"

fun icons_loop :: "(real \<times> real \<times> real) list \<Rightarrow> Asset list \<Rightarrow> Asset list" where
  "icons_loop [] assets = assets"
| "icons_loop (c # rest) assets = icons_loop rest (assets @ [icon_asset c])"

definition image_asset :: "int \<times> int \<times> int \<times> int \<Rightarrow> Asset" where
  "image_asset r =
     (case r of (x, y, w, h) \<Rightarrow>
        \<lparr>asset_type = ''image'',
         asset_dimensions = [(''width'', w), (''height'', h)],
         asset_position = [(''x'', x), (''y'', y)],
         alt_text_intent = Some ''Content image'',
         file_format = None\<rparr>)"

fun images_loop :: "contour list \<Rightarrow> Asset list \<Rightarrow> exn + Asset list" where
  "images_loop [] assets = Inr assets"
| "images_loop (c # rest) assets =
     (if contour_area c > 2000 then
        (case bounding_rect c of (x, y, w, h) \<Rightarrow>
           if h = 0 then Inl ZeroDivisionError
           else let aspect_ratio = real_of_int w / real_of_int h
                in if 0.5 \<le> aspect_ratio \<and> aspect_ratio \<le> 3.0 \<and> w > 50 \<and> h > 50
                   then images_loop rest (assets @ [image_asset (x, y, w, h)])
                   else images_loop rest assets)
      else images_loop rest assets)"

definition catalog_assets_body :: "exn + asset_shapes \<Rightarrow> exn + Asset list" where
  "catalog_assets_body found =
     (case found of
        Inl e \<Rightarrow> Inl e
      | Inr (circles, contours) \<Rightarrow>
          let assets = (case circles of None \<Rightarrow> [] | Some cs \<Rightarrow> icons_loop cs [])
          in (case images_loop contours assets of
                Inl e \<Rightarrow> Inl e
              | Inr assets' \<Rightarrow> Inr (take 10 assets')))"

definition catalog_assets :: "exn + asset_shapes \<Rightarrow> Asset list" where
  "catalog_assets found = (case catalog_assets_body found of Inl e \<Rightarrow> [] | Inr as \<Rightarrow> as)"

section \<open>Global styles, style guide, component labels\<close>

record GlobalStyles =
  borders :: "(string \<times> string) list"
  shadows :: "(string \<times> string) list"
  border_radius :: "(string \<times> string) list"
  breakpoints :: "(string \<times> string) list option"
  css_variables :: "(string \<times> string) list option"

text \<open>\<^verbatim>\<open>_analyze_global_styles\<close> builds a constant and reads nothing from the image.\<close>

definition analyze_global_styles :: GlobalStyles where
  "analyze_global_styles =
     \<lparr>borders = [(''default'', ''1px solid #e0e0e0''), (''focus'', ''2px solid #2196f3'')],
      shadows = [(''card'', ''0 2px 4px rgba(0,0,0,0.1)''),
                 (''button'', ''0 1px 2px rgba(0,0,0,0.1)'')],
      border_radius = [(''small'', ''4px''), (''medium'', ''8px''), (''large'', ''12px'')],
      breakpoints = Some [(''mobile'', ''768px''), (''tablet'', ''1024px''),
                          (''desktop'', ''1200px'')],
      css_variables = None\<rparr>"

record StyleGuide =
  primary_colors :: "string list"
  secondary_colors :: "string list"
  font_stack :: "string list"
  spacing_scale :: "string list"
  design_tokens :: "(string \<times> string) list"

text \<open>\<^verbatim>\<open>_synthesize_style_guide\<close>. The order in which \<^verbatim>\<open>list(set(...))\<close> enumerates the
  font families is not fixed by the source; it is the parameter \<open>list_of_set\<close>. No
  statement of the body can raise, so the \<^verbatim>\<open>except\<close> branch is never entered.\<close>

definition synthesize_style_guide ::
  "(string list \<Rightarrow> string list) \<Rightarrow> ColorInfo list \<Rightarrow> Typography list \<Rightarrow> StyleGuide" where
  "synthesize_style_guide list_of_set colors typography =
     (let primary = map hex_code (filter (\<lambda>c. confidence c > 0.1) (take 3 colors));
          secondary = map hex_code (take 3 (drop 3 colors));
          fonts = list_of_set (map font_family typography)
      in \<lparr>primary_colors = primary,
          secondary_colors = secondary,
          font_stack = take 3 fonts,
          spacing_scale = [''4px'', ''8px'', ''12px'', ''16px'', ''24px'', ''32px'', ''48px'',
                           ''64px''],
          design_tokens =
            [(''primary'', case primary of [] \<Rightarrow> ''#2196f3'' | p # _ \<Rightarrow> p),
             (''secondary'', case secondary of [] \<Rightarrow> ''#757575'' | p # _ \<Rightarrow> p),
             (''base_font_size'', ''16px''),
             (''line_height'', ''1.5'')]\<rparr>)"

text \<open>\<^verbatim>\<open>_label_components\<close>: \<^verbatim>\<open>labels[key] = value\<close> on an insertion-ordered
  dictionary.\<close>

function label_loop ::
  "nat \<Rightarrow> InteractiveElement list \<Rightarrow> nat \<Rightarrow> nat \<Rightarrow> (string \<times> string) list
     \<Rightarrow> (string \<times> string) list" where
  "label_loop i [] button_count input_count lbls = lbls"
| "label_loop i (e # rest) button_count input_count lbls =
     (if element_type e = BUTTON then
        label_loop (i + 1) rest (button_count + 1) input_count
          (AList.update (''element_'' @ str_nat i) (''Button '' @ str_nat (button_count + 1))
             lbls)
      else if element_type e = INPUT then
        label_loop (i + 1) rest button_count (input_count + 1)
          (AList.update (''element_'' @ str_nat i)
             (''Input Field '' @ str_nat (input_count + 1)) lbls)
      else
        label_loop (i + 1) rest button_count input_count
          (AList.update (''element_'' @ str_nat i) (''Container '' @ str_nat (i + 1)) lbls))"
  by pat_completeness auto
termination
  by (relation "measure (\<lambda>(i, es, button_count, input_count, lbls). length es)") auto

definition label_components :: "InteractiveElement list \<Rightarrow> (string \<times> string) list" where
  "label_components interactive_elements = label_loop 0 interactive_elements 0 0 []"

section \<open>Confidence scorer\<close>

text \<open>\<^verbatim>\<open>_calculate_confidence\<close>. \<^verbatim>\<open>if layout.layout_type:\<close> tests the truth value of a
  string enumeration member, that is, whether its value is non-empty. The division is by
  the length of a non-empty list, so nothing in the body raises.\<close>

definition calculate_confidence ::
  "LayoutStructure \<Rightarrow> ColorInfo list \<Rightarrow> Typography list \<Rightarrow> InteractiveElement list \<Rightarrow> real" where
  "calculate_confidence layout colors typography elements =
     (let f0 = [];
          f1 = (if layout_value (layout_type layout) \<noteq> [] then f0 @ [0.8] else f0);
          f2 = (if colors \<noteq> []
                then f1 @ [sum_list (map confidence colors) / real (length colors)]
                else f1);
          f3 = (if typography \<noteq> [] then f2 @ [0.7] else f2);
          confidence_factors = (if elements \<noteq> [] then f3 @ [0.6] else f3)
      in if confidence_factors \<noteq> []
         then sum_list confidence_factors / real (length confidence_factors)
         else 0.5)"

section \<open>Response and prompt\<close>

record image_info_t =
  filename :: ustr
  dimensions_width :: nat
  dimensions_height :: nat
  channels :: nat
  format :: string

record prompt_metadata =
  analysis_confidence :: real
  processing_time_seconds :: real
  detected_colors :: nat
  detected_text_elements :: nat
  detected_interactive_elements :: nat
  detected_assets :: nat
  layout_system :: string
  prompt_word_count :: nat
  prompt_character_count :: nat
  accuracy_level :: string
  recreation_difficulty :: string

record GeneratedPrompt =
  title :: ustr
  description :: ustr
  full_prompt :: ustr
  sections :: "(string \<times> ustr) list"
  metadata :: prompt_metadata

record AnalysisResponse =
  layout :: LayoutStructure
  colors :: "ColorInfo list"
  typography :: "Typography list"
  interactive_elements :: "InteractiveElement list"
  assets :: "Asset list"
  global_styles :: GlobalStyles
  style_guide :: StyleGuide
  component_labels :: "(string \<times> string) list"
  generated_prompt :: "GeneratedPrompt option"
  image_info :: image_info_t
  processing_time :: real
  confidence_score :: real
  warnings :: "string list"

text \<open>The markdown templates of \<^verbatim>\<open>prompt_generator.py\<close> are string formatting over the
  response; the text they produce (title, description and the eight sections in the
  order of the dictionary) is a parameter of the model. Every index and key they read is
  guarded or present by construction, so the templates return for every response.\<close>

record prompt_text =
  rendered_title :: ustr
  rendered_description :: ustr
  rendered_sections :: "(string \<times> ustr) list"

text \<open>\<^verbatim>\<open>sep.join(parts)\<close>.\<close>

fun join :: "ustr \<Rightarrow> ustr list \<Rightarrow> ustr" where
  "join sep [] = []"
| "join sep [s] = s"
| "join sep (s # t # rest) = s @ sep @ join sep (t # rest)"

text \<open>\<^verbatim>\<open>_combine_sections\<close>: the non-blank sections, separated by an empty line.\<close>

definition combine_sections :: "(string \<times> ustr) list \<Rightarrow> ustr" where
  "combine_sections secs = join [10, 10] (filter (\<lambda>s. py_strip s \<noteq> []) (map snd secs))"

definition generate_full_prompt :: "(AnalysisResponse \<Rightarrow> prompt_text) \<Rightarrow> AnalysisResponse \<Rightarrow> GeneratedPrompt" where
  "generate_full_prompt templates analysis =
     (let rendered = templates analysis;
          secs = rendered_sections rendered;
          full = combine_sections secs
      in \<lparr>title = rendered_title rendered,
          description = rendered_description rendered,
          full_prompt = full,
          sections = secs,
          metadata =
            \<lparr>analysis_confidence = confidence_score analysis,
             processing_time_seconds = processing_time analysis,
             detected_colors = length (colors analysis),
             detected_text_elements = length (typography analysis),
             detected_interactive_elements = length (interactive_elements analysis),
             detected_assets = (if assets analysis \<noteq> [] then length (assets analysis) else 0),
             layout_system = layout_value (layout_type (layout analysis)),
             prompt_word_count = count_words False full,
             prompt_character_count = length full,
             accuracy_level = ''pixel-perfect'',
             recreation_difficulty =
               (if confidence_score analysis > 0.8 then ''high''
                else if confidence_score analysis > 0.6 then ''medium''
                else ''challenging'')\<rparr>\<rparr>)"

section \<open>The pipeline\<close>

text \<open>What the libraries return, as functions of their arguments: \<^verbatim>\<open>cv2.imdecode\<close> with
  the conversion to RGB (\<^verbatim>\<open>None\<close> for bytes that are no image), the contours of the
  classifier, the Hough segments of the layout analyzer, the k-means fit for a number of
  clusters, a generator seed, a number of initialisations and the pixels, the OCR table,
  the contours of the element detector, the circles and contours of the asset cataloger,
  and the prompt templates. Two things belong to one run of the process and differ from
  run to run: the state of NumPy's global random generator and the order in which a set
  of strings is enumerated.\<close>

record externals =
  imdecode :: "8 word list \<Rightarrow> exn + ndimage option"
  canny_contours :: "ndimage \<Rightarrow> exn + approx_contour list"
  hough_lines_p :: "ndimage \<Rightarrow> exn + hough_lines"
  sklearn_kmeans :: "nat \<Rightarrow> nat \<Rightarrow> nat \<Rightarrow> ndimage \<Rightarrow> exn + kmeans_fit"
  numpy_global_rng :: nat
  image_to_data :: "ndimage \<Rightarrow> exn + ocr_data"
  threshold_contours :: "ndimage \<Rightarrow> exn + contour list"
  circles_and_contours :: "ndimage \<Rightarrow> exn + asset_shapes"
  list_of_set :: "string list \<Rightarrow> string list"
  prompt_templates :: "AnalysisResponse \<Rightarrow> prompt_text"

text \<open>\<^verbatim>\<open>KMeans(n_clusters, random_state, n_init).fit(pixels)\<close>: an integer
  \<^verbatim>\<open>random_state\<close> seeds a generator of its own; with \<^verbatim>\<open>random_state=None\<close> the fit draws
  from the global generator of the run.\<close>

definition KMeans_fit ::
  "externals \<Rightarrow> nat \<Rightarrow> nat option \<Rightarrow> nat \<Rightarrow> ndimage \<Rightarrow> exn + kmeans_fit" where
  "KMeans_fit ext n_clusters random_state n_init pixels =
     sklearn_kmeans ext n_clusters
       (case random_state of Some seed \<Rightarrow> seed | None \<Rightarrow> numpy_global_rng ext)
       n_init pixels"

text \<open>The clustering of \<^verbatim>\<open>_extract_colors\<close>:
  \<^verbatim>\<open>KMeans(n_clusters=8, random_state=42, n_init=10)\<close>, fitted to the pixels of the image.\<close>

definition kmeans :: "externals \<Rightarrow> ndimage \<Rightarrow> exn + kmeans_fit" where
  "kmeans ext img = KMeans_fit ext 8 (Some 42) 10 img"

text \<open>\<^verbatim>\<open>_load_image\<close>: an exception while decoding is logged and gives \<^verbatim>\<open>None\<close>.\<close>

definition load_image :: "externals \<Rightarrow> 8 word list \<Rightarrow> ndimage option" where
  "load_image ext image_data =
     (case imdecode ext image_data of Inl e \<Rightarrow> None | Inr img \<Rightarrow> img)"

definition screenshot_warning :: string where
  "screenshot_warning = ''Image may not be a website/app screenshot''"

text \<open>\<^verbatim>\<open>analyze_image\<close>. The two readings of the clock are parameters. The outer
  \<^verbatim>\<open>except\<close> logs and re-raises, so an exception of the body is the result.\<close>

definition analyze_image ::
  "externals \<Rightarrow> real \<Rightarrow> real \<Rightarrow> 8 word list \<Rightarrow> ustr \<Rightarrow> exn + AnalysisResponse" where
  "analyze_image ext start_time end_time image_data fname =
     (case load_image ext image_data of
        None \<Rightarrow> Inl ValueError
      | Some img \<Rightarrow>
          let w0 = [];
              warnings1 =
                (if \<not> is_website_screenshot img (canny_contours ext img)
                 then w0 @ [screenshot_warning] else w0);
              layout1 = analyze_layout img (hough_lines_p ext img);
              colors1 = extract_colors (kmeans ext img);
              typography1 = analyze_typography img (image_to_data ext img);
              interactive_elements1 =
                detect_interactive_elements img (threshold_contours ext img);
              assets1 = catalog_assets (circles_and_contours ext img);
              global_styles1 = analyze_global_styles;
              style_guide1 = synthesize_style_guide (list_of_set ext) colors1 typography1;
              component_labels1 = label_components interactive_elements1;
              processing_time1 = end_time - start_time;
              confidence_score1 =
                calculate_confidence layout1 colors1 typography1 interactive_elements1;
              response =
                \<lparr>layout = layout1,
                 colors = colors1,
                 typography = typography1,
                 interactive_elements = interactive_elements1,
                 assets = assets1,
                 global_styles = global_styles1,
                 style_guide = style_guide1,
                 component_labels = component_labels1,
                 generated_prompt = None,
                 image_info =
                   \<lparr>filename = fname,
                    dimensions_width = width img,
                    dimensions_height = height img,
                    channels = 3,
                    format = ''detected_from_content''\<rparr>,
                 processing_time = round2 processing_time1,
                 confidence_score = round2 confidence_score1,
                 warnings = warnings1\<rparr>
          in Inr (response\<lparr>generated_prompt :=
                              Some (generate_full_prompt (prompt_templates ext) response)\<rparr>))"

section \<open>The specification's reading of the typography rule\<close>

text \<open>The specification states the font size as \<open>max(12, 0.8 \<times> height)\<close>, a real number of
  pixels, and classifies by it. These two definitions follow its words; they are compared
  with \<open>estimate_font_size\<close> and \<open>classify_text\<close> of the source.\<close>

definition spec_font_size :: "int \<Rightarrow> real" where
  "spec_font_size h = max 12 (0.8 * real_of_int h)"

definition spec_text_class :: "real \<Rightarrow> string \<times> string" where
  "spec_text_class fs =
     (if fs > 24 then (''heading'', ''bold'')
      else if 18 < fs \<and> fs \<le> 24 then (''subheading'', ''semi-bold'')
      else (''body'', ''normal''))"

section \<open>Enumerations of a set\<close>

text \<open>What \<^verbatim>\<open>list(set(xs))\<close> guarantees whatever the hash order: every element once.\<close>

definition enumerates :: "(string list \<Rightarrow> string list) \<Rightarrow> bool" where
  "enumerates f \<longleftrightarrow> (\<forall>xs. distinct (f xs) \<and> set (f xs) = set xs)"

section \<open>Example inputs\<close>

text \<open>A fit with two clusters: three of four pixels near white, one near black.\<close>

definition example_fit :: kmeans_fit where
  "example_fit =
     \<lparr>cluster_centers = [(250.6, 250, 250), (20, 20.9, 20)],
      labels = [0, 0, 1, 0]\<rparr>"

text \<open>A fit with eight centers in which no pixel is assigned to cluster 1.\<close>

definition misaligned_fit :: kmeans_fit where
  "misaligned_fit =
     \<lparr>cluster_centers = [(250, 250, 250), (20, 20, 20), (200, 40, 40), (128, 128, 128),
                         (10, 200, 100), (90, 120, 100), (0, 0, 255), (255, 255, 0)],
      labels = [0, 2, 2, 2, 2, 3, 4, 5, 6, 7]\<rparr>"

text \<open>A white 1024 by 600 image.\<close>

definition example_image :: ndimage where
  "example_image = \<lparr>height = 600, width = 1024, px = (\<lambda>row col. (255, 255, 255))\<rparr>"

text \<open>Three OCR tokens, the second one blank.\<close>

definition example_ocr :: ocr_data where
  "example_ocr =
     \<lparr>ocr_text = [[72, 105], [32], [84, 105, 116, 108, 101]],
      ocr_left = [10, 0, 40], ocr_top = [10, 0, 100],
      ocr_width = [30, 0, 200], ocr_height = [20, 0, 31]\<rparr>"

text \<open>Four contours of the thresholded image.\<close>

definition example_contours :: "contour list" where
  "example_contours =
     [\<lparr>contour_area = 4000, bounding_rect = (10, 10, 120, 40)\<rparr>,
      \<lparr>contour_area = 300, bounding_rect = (0, 0, 20, 20)\<rparr>,
      \<lparr>contour_area = 3000, bounding_rect = (200, 50, 300, 30)\<rparr>,
      \<lparr>contour_area = 2500, bounding_rect = (5, 300, 50, 50)\<rparr>]"

text \<open>Templates that render nothing.\<close>

definition empty_prompt :: "AnalysisResponse \<Rightarrow> prompt_text" where
  "empty_prompt analysis =
     \<lparr>rendered_title = [], rendered_description = [], rendered_sections = []\<rparr>"

text \<open>Libraries that decode every non-empty byte string to the example image.\<close>

definition example_externals :: externals where
  "example_externals =
     \<lparr>imdecode = (\<lambda>image_data. if image_data = [] then Inr None else Inr (Some example_image)),
      canny_contours = (\<lambda>im. Inr [(4, 10000)]),
      hough_lines_p = (\<lambda>im. Inr (Some 3, Some 2)),
      sklearn_kmeans =
        (\<lambda>n_clusters seed n_init im. Inr (if seed = 42 then example_fit else misaligned_fit)),
      numpy_global_rng = 0,
      image_to_data = (\<lambda>im. Inr example_ocr),
      threshold_contours = (\<lambda>im. Inr example_contours),
      circles_and_contours = (\<lambda>im. Inr (None, [])),
      list_of_set = remdups,
      prompt_templates = empty_prompt\<rparr>"

text \<open>Libraries that decode, and then raise in every stage.\<close>

definition failing_externals :: externals where
  "failing_externals =
     \<lparr>imdecode = (\<lambda>image_data. if image_data = [] then Inl LibraryError
                                else Inr (Some example_image)),
      canny_contours = (\<lambda>im. Inl LibraryError),
      hough_lines_p = (\<lambda>im. Inl LibraryError),
      sklearn_kmeans = (\<lambda>n_clusters seed n_init im. Inl ValueError),
      numpy_global_rng = 0,
      image_to_data = (\<lambda>im. Inl LibraryError),
      threshold_contours = (\<lambda>im. Inl LibraryError),
      circles_and_contours = (\<lambda>im. Inl LibraryError),
      list_of_set = remdups,
      prompt_templates = empty_prompt\<rparr>"

section \<open>Properties of the color extractor\<close>

lemma colors_loop_map:
  "colors_loop ps acc = acc @ map (\<lambda>(center, percentage). color_info center percentage) ps"
  by (induction ps acc rule: colors_loop.induct) auto

lemma set_sort_by_confidence_desc: "set (sort_by_confidence_desc cs) = set cs"
  by (simp add: sort_by_confidence_desc_def)

lemma length_sort_by_confidence_desc: "length (sort_by_confidence_desc cs) = length cs"
  by (simp add: sort_by_confidence_desc_def)

lemma colors_of_fit_subset:
  "set (colors_of_fit km)
     \<subseteq> (\<lambda>(center, percentage). color_info center percentage)
         ` set (zip (centers_astype_int (cluster_centers km)) (color_percentages (labels km)))"
  using set_take_subset [of 6]
  by (fastforce simp: colors_of_fit_def Let_def colors_loop_map set_sort_by_confidence_desc)

text \<open>When every cluster index below \<open>k\<close> occurs among the labels, the distinct labels in
  increasing order are \<open>0, ..., k - 1\<close>, and the \<open>i\<close>-th percentage is the share of the
  pixels labelled \<open>i\<close>.\<close>

lemma sort_remdups_full:
  assumes "set ls = {..<k}"
  shows "sort (remdups ls) = [0..<k]"
proof -
  have "sorted (sort (remdups ls))" "distinct (sort (remdups ls))"
       "set (sort (remdups ls)) = set [0..<k]"
    using assms by (auto simp: atLeast0LessThan)
  moreover have "sorted [0..<k]" "distinct [0..<k]" by simp_all
  ultimately show ?thesis
    by (metis sorted_distinct_set_unique)
qed

lemma color_percentages_full:
  assumes "set ls = {..<k}"
  shows "color_percentages ls = map (\<lambda>i. real (count_list ls i) / real (length ls)) [0..<k]"
  by (simp add: color_percentages_def np_unique_counts_def sort_remdups_full [OF assms] comp_def)

lemma determine_color_usage_cases:
  "determine_color_usage (r, g, b) p =
     (if p > 0.3 then ''Background''
      else if r < 100 \<and> g < 100 \<and> b < 100 then ''Text''
      else if 0.1 \<le> p \<and> p \<le> 0.3 \<and> max r (max g b) - min r (min g b) > 50
           then ''Primary/Accent''
      else if max r (max g b) - min r (min g b) < 30 then ''Border/Divider''
      else ''UI Element'')"
  by (simp add: determine_color_usage_def Let_def)

text \<open>
  Every sample that the color extractor emits comes from one pair \<open>(center, percentage)\<close>
  of the loop: its RGB triple is the integer center, its confidence is that percentage,
  and its usage context is the first rule that applies among Background (\<open>p > 0.3\<close>),
  Text (all channels below 100), Primary/Accent (\<open>0.1 \<le> p \<le> 0.3\<close> and channel spread
  above 50), Border/Divider (spread below 30) and UI Element. When every cluster has
  pixels, the percentage is the share of the pixels assigned to that cluster.
\<close>

lemma extract_colors_sample:
  assumes "c \<in> set (extract_colors (Inr km))"
  shows "\<exists>i r g b p.
           i < length (cluster_centers km) \<and> i < length (color_percentages (labels km))
           \<and> centers_astype_int (cluster_centers km) ! i = (r, g, b)
           \<and> color_percentages (labels km) ! i = p
           \<and> rgb c = (r, g, b) \<and> confidence c = p
           \<and> usage_context c =
               (if p > 0.3 then ''Background''
                else if r < 100 \<and> g < 100 \<and> b < 100 then ''Text''
                else if 0.1 \<le> p \<and> p \<le> 0.3 \<and> max r (max g b) - min r (min g b) > 50
                     then ''Primary/Accent''
                else if max r (max g b) - min r (min g b) < 30 then ''Border/Divider''
                else ''UI Element'')
           \<and> (set (labels km) = {..<length (cluster_centers km)}
                \<longrightarrow> p = real (count_list (labels km) i) / real (length (labels km)))"
proof -
  let ?cs = "centers_astype_int (cluster_centers km)"
  let ?ps = "color_percentages (labels km)"
  from assms have "c \<in> set (colors_of_fit km)" by (simp add: extract_colors_def)
  with colors_of_fit_subset obtain center p where
    mem: "(center, p) \<in> set (zip ?cs ?ps)" and c: "c = color_info center p"
    by fastforce
  from mem obtain i where i: "i < length ?cs" "i < length ?ps" "?cs ! i = center" "?ps ! i = p"
    by (auto simp: set_zip)
  obtain r g b where rgb: "center = (r, g, b)" by (cases center) auto
  have len: "length ?cs = length (cluster_centers km)" by (simp add: centers_astype_int_def)
  have full: "p = real (count_list (labels km) i) / real (length (labels km))"
    if "set (labels km) = {..<length (cluster_centers km)}"
    using color_percentages_full [OF that] i len by simp
  have uc: "usage_context c = determine_color_usage (r, g, b) p"
    using c rgb by (simp add: color_info_def)
  show ?thesis
  proof (intro exI conjI)
    show "i < length (cluster_centers km)" using i len by simp
    show "i < length ?ps" by fact
    show "?cs ! i = (r, g, b)" using i rgb by simp
    show "?ps ! i = p" by fact
    show "rgb c = (r, g, b)" using c rgb by (simp add: color_info_def)
    show "confidence c = p" using c rgb by (simp add: color_info_def)
    show "usage_context c =
            (if p > 0.3 then ''Background''
             else if r < 100 \<and> g < 100 \<and> b < 100 then ''Text''
             else if 0.1 \<le> p \<and> p \<le> 0.3 \<and> max r (max g b) - min r (min g b) > 50
                  then ''Primary/Accent''
             else if max r (max g b) - min r (min g b) < 30 then ''Border/Divider''
             else ''UI Element'')"
      unfolding uc by (rule determine_color_usage_cases)
    show "set (labels km) = {..<length (cluster_centers km)}
            \<longrightarrow> p = real (count_list (labels km) i) / real (length (labels km))"
      using full by blast
  qed
qed

lemma example_percentages: "color_percentages (labels example_fit) = [3 / 4, 1 / 4]"
  by (simp add: example_fit_def color_percentages_def np_unique_counts_def)

lemma example_centers:
  "centers_astype_int (cluster_centers example_fit) = [(250, 250, 250), (20, 20, 20)]"
  by (simp add: example_fit_def centers_astype_int_def py_int_def)

lemma example_colors:
  "extract_colors (Inr example_fit) =
     [color_info (250, 250, 250) (3 / 4), color_info (20, 20, 20) (1 / 4)]"
  by (simp add: extract_colors_def colors_of_fit_def example_percentages example_centers
      sort_by_confidence_desc_def color_info_def)

lemma extract_colors_sample_example:
  "color_info (20, 20, 20) (1 / 4) \<in> set (extract_colors (Inr example_fit))
   \<and> (\<exists>i r g b p.
           i < length (cluster_centers example_fit)
           \<and> i < length (color_percentages (labels example_fit))
           \<and> centers_astype_int (cluster_centers example_fit) ! i = (r, g, b)
           \<and> color_percentages (labels example_fit) ! i = p
           \<and> rgb (color_info (20, 20, 20) (1 / 4)) = (r, g, b)
           \<and> confidence (color_info (20, 20, 20) (1 / 4)) = p
           \<and> usage_context (color_info (20, 20, 20) (1 / 4)) =
               (if p > 0.3 then ''Background''
                else if r < 100 \<and> g < 100 \<and> b < 100 then ''Text''
                else if 0.1 \<le> p \<and> p \<le> 0.3 \<and> max r (max g b) - min r (min g b) > 50
                     then ''Primary/Accent''
                else if max r (max g b) - min r (min g b) < 30 then ''Border/Divider''
                else ''UI Element'')
           \<and> (set (labels example_fit) = {..<length (cluster_centers example_fit)}
                \<longrightarrow> p = real (count_list (labels example_fit) i)
                          / real (length (labels example_fit))))"
proof -
  have h: "color_info (20, 20, 20) (1 / 4) \<in> set (extract_colors (Inr example_fit))"
    by (simp add: example_colors)
  from h extract_colors_sample [OF h] show ?thesis by (rule conjI)
qed

lemma misaligned_percentages:
  "color_percentages (labels misaligned_fit)
     = [1 / 10, 2 / 5, 1 / 10, 1 / 10, 1 / 10, 1 / 10, 1 / 10]"
  by (simp add: misaligned_fit_def color_percentages_def np_unique_counts_def)

lemma misaligned_centers:
  "centers_astype_int (cluster_centers misaligned_fit)
     = [(250, 250, 250), (20, 20, 20), (200, 40, 40), (128, 128, 128),
        (10, 200, 100), (90, 120, 100), (0, 0, 255), (255, 255, 0)]"
  by (simp add: misaligned_fit_def centers_astype_int_def py_int_def)

text \<open>
  Claim C3 at a fit with an empty cluster. \<^verbatim>\<open>np.unique\<close> lists only the labels that
  occur, so the percentages are those of clusters 0, 2, 3, ..., 7, and the loop pairs
  them with the centers 0, 1, 2, ..., 6. The sample of center \<open>(20, 20, 20)\<close> of cluster 1,
  which has no pixel, is emitted with confidence \<open>2/5\<close>, the share of cluster 2, and is
  labelled Background; the center \<open>(200, 40, 40)\<close> of cluster 2 is emitted with confidence
  \<open>1/10\<close>. The confidence of a sample is then not the proportion of its cluster.
\<close>

theorem C3_empty_cluster_misaligned:
  "extract_colors (Inr misaligned_fit)
     = [color_info (20, 20, 20) (2 / 5), color_info (250, 250, 250) (1 / 10),
        color_info (200, 40, 40) (1 / 10), color_info (128, 128, 128) (1 / 10),
        color_info (10, 200, 100) (1 / 10), color_info (90, 120, 100) (1 / 10)]
   \<and> confidence (color_info (20, 20, 20) (2 / 5)) = 2 / 5
   \<and> usage_context (color_info (20, 20, 20) (2 / 5)) = ''Background''
   \<and> centers_astype_int (cluster_centers misaligned_fit) ! 1 = (20, 20, 20)
   \<and> real (count_list (labels misaligned_fit) 1) / real (length (labels misaligned_fit)) = 0
   \<and> centers_astype_int (cluster_centers misaligned_fit) ! 2 = (200, 40, 40)
   \<and> real (count_list (labels misaligned_fit) 2) / real (length (labels misaligned_fit))
       = 2 / 5
   \<and> confidence (color_info (200, 40, 40) (1 / 10)) = 1 / 10"
proof -
  have "extract_colors (Inr misaligned_fit)
     = [color_info (20, 20, 20) (2 / 5), color_info (250, 250, 250) (1 / 10),
        color_info (200, 40, 40) (1 / 10), color_info (128, 128, 128) (1 / 10),
        color_info (10, 200, 100) (1 / 10), color_info (90, 120, 100) (1 / 10)]"
    by (simp add: extract_colors_def colors_of_fit_def misaligned_percentages
        misaligned_centers sort_by_confidence_desc_def color_info_def)
  moreover have "confidence (color_info (20, 20, 20) (2 / 5)) = 2 / 5"
    and "usage_context (color_info (20, 20, 20) (2 / 5)) = ''Background''"
    and "confidence (color_info (200, 40, 40) (1 / 10)) = 1 / 10"
    by (simp_all add: color_info_def determine_color_usage_def)
  moreover have "centers_astype_int (cluster_centers misaligned_fit) ! 1 = (20, 20, 20)"
    and "centers_astype_int (cluster_centers misaligned_fit) ! 2 = (200, 40, 40)"
    by (simp_all add: misaligned_centers)
  moreover have
    "real (count_list (labels misaligned_fit) 1) / real (length (labels misaligned_fit)) = 0"
    and "real (count_list (labels misaligned_fit) 2) / real (length (labels misaligned_fit))
           = 2 / 5"
    by (simp_all add: misaligned_fit_def)
  ultimately show ?thesis by blast
qed

section \<open>Properties of the layout analyzer\<close>

lemma layout_value_nonempty: "layout_value t \<noteq> []"
  by (cases t) simp_all

text \<open>
  Claim C4. With \<open>h\<close> horizontal and \<open>v\<close> vertical segments detected, the layout is a grid
  exactly when \<open>h \<ge> 2\<close> and \<open>v \<ge> 2\<close>, and then the grid structure reads
  "Estimated \<open>v + 1\<close> columns, \<open>h + 1\<close> rows"; otherwise the layout is flexbox without a grid
  structure. The responsive hint is the desktop one exactly when the width exceeds 768 and
  the mobile one otherwise. When the stage fails inside, the result is the flexbox
  descriptor with "unknown" spacing and alignment.
\<close>

theorem C4_layout_rule:
  fixes im :: ndimage and h_lines v_lines :: "nat option"
  defines "h \<equiv> len_or_zero h_lines" and "v \<equiv> len_or_zero v_lines"
  defines "L \<equiv> analyze_layout im (Inr (h_lines, v_lines))"
  shows "(layout_type L = GRID \<longleftrightarrow> h \<ge> 2 \<and> v \<ge> 2)
       \<and> (h \<ge> 2 \<and> v \<ge> 2 \<longrightarrow>
            grid_structure L =
              Some (''Estimated '' @ str_nat (v + 1) @ '' columns, '' @ str_nat (h + 1) @ '' rows''))
       \<and> (\<not> (h \<ge> 2 \<and> v \<ge> 2) \<longrightarrow> layout_type L = FLEXBOX \<and> grid_structure L = None)
       \<and> responsive_hints L =
            Some [if width im > 768 then ''Desktop layout detected''
                  else ''Mobile layout detected'']
       \<and> analyze_layout im (Inl e) =
            \<lparr>layout_type = FLEXBOX, grid_structure = None, flexbox_properties = None,
             spacing = [(''padding'', ''unknown''), (''margin'', ''unknown''),
                        (''gap'', ''unknown'')],
             alignment = ''unknown'', responsive_hints = None\<rparr>"
  unfolding L_def h_def v_def
  by (simp add: analyze_layout_def analyze_layout_body_def layout_fallback_def Let_def)

theorem C4_layout_rule_witness:
  "layout_type (analyze_layout example_image (Inr (Some 3, Some 2))) = GRID
   \<and> grid_structure (analyze_layout example_image (Inr (Some 3, Some 2)))
       = Some ''Estimated 3 columns, 4 rows''
   \<and> layout_type (analyze_layout example_image (Inr (Some 3, None))) = FLEXBOX
   \<and> grid_structure (analyze_layout example_image (Inr (Some 3, None))) = None
   \<and> responsive_hints (analyze_layout example_image (Inr (Some 3, Some 2)))
       = Some [''Desktop layout detected'']"
  using C4_layout_rule [where im = example_image and h_lines = "Some 3" and v_lines = "Some 2"]
        C4_layout_rule [where im = example_image and h_lines = "Some 3" and v_lines = None]
  by (simp add: len_or_zero_def example_image_def dec_digit_def)

section \<open>Properties of the confidence scorer\<close>

text \<open>
  Claim C7. The score is the unweighted mean of the applicable factors: 0.8 when the layout
  has a kind, the mean confidence of the colors when there are colors, 0.7 when there is
  typography, 0.6 when there are interactive elements; with no factor it is 0.5. The
  layout factor always applies. With no typography the score is the mean of the other
  factors alone: the missing factor is left out of the count, not averaged in as zero.
\<close>

theorem C7_confidence_mean:
  fixes l :: LayoutStructure and cs :: "ColorInfo list" and ts :: "Typography list"
    and es :: "InteractiveElement list"
  defines "layout_f \<equiv> (if layout_value (layout_type l) \<noteq> [] then [0.8 :: real] else [])"
  defines "colors_f \<equiv>
             (if cs \<noteq> [] then [sum_list (map confidence cs) / real (length cs)] else [])"
  defines "typography_f \<equiv> (if ts \<noteq> [] then [0.7 :: real] else [])"
  defines "elements_f \<equiv> (if es \<noteq> [] then [0.6 :: real] else [])"
  defines "fs \<equiv> layout_f @ colors_f @ typography_f @ elements_f"
  shows "calculate_confidence l cs ts es
           = (if fs = [] then 0.5 else sum_list fs / real (length fs))
       \<and> layout_f = [0.8]
       \<and> (ts = [] \<longrightarrow>
            calculate_confidence l cs ts es
              = sum_list (layout_f @ colors_f @ elements_f)
                / real (length (layout_f @ colors_f @ elements_f)))"
  unfolding fs_def layout_f_def colors_f_def typography_f_def elements_f_def
  by (simp add: calculate_confidence_def Let_def layout_value_nonempty)

theorem C7_confidence_mean_witness:
  "calculate_confidence layout_fallback
     [color_info (250, 250, 250) (3 / 4), color_info (20, 20, 20) (1 / 4)] [] [] = 13 / 20"
  using C7_confidence_mean [where l = layout_fallback and ts = "[]" and es = "[]"
          and cs = "[color_info (250, 250, 250) (3 / 4), color_info (20, 20, 20) (1 / 4)]"]
  by (simp add: color_info_def)

section \<open>Properties of the pipeline\<close>

lemma count_rectangular_filter:
  "count_rectangular im cs n =
     n + length (filter (\<lambda>(k, a). k = 4 \<and> a > real (width im * height im) * 0.01) cs)"
  by (induction im cs n rule: count_rectangular.induct) auto

text \<open>What the pipeline returns for a decoded image.\<close>

lemma analyze_image_decoded:
  assumes "load_image ext image_data = Some img"
  shows "\<exists>r. analyze_image ext start_time end_time image_data fname = Inr r
           \<and> warnings r = (if is_website_screenshot img (canny_contours ext img) then []
                           else [screenshot_warning])
           \<and> layout r = analyze_layout img (hough_lines_p ext img)
           \<and> colors r = extract_colors (kmeans ext img)
           \<and> typography r = analyze_typography img (image_to_data ext img)
           \<and> interactive_elements r
               = detect_interactive_elements img (threshold_contours ext img)
           \<and> assets r = catalog_assets (circles_and_contours ext img)
           \<and> global_styles r = analyze_global_styles
           \<and> style_guide r = synthesize_style_guide (list_of_set ext) (colors r) (typography r)
           \<and> component_labels r = label_components (interactive_elements r)
           \<and> image_info r = \<lparr>filename = fname, dimensions_width = width img,
                dimensions_height = height img, channels = 3,
                format = ''detected_from_content''\<rparr>
           \<and> processing_time r = round2 (end_time - start_time)
           \<and> confidence_score r
               = round2 (calculate_confidence (layout r) (colors r) (typography r)
                           (interactive_elements r))"
  using assms by (simp add: analyze_image_def Let_def)

lemma analyze_image_undecoded:
  assumes "load_image ext image_data = None"
  shows "analyze_image ext start_time end_time image_data fname = Inl ValueError"
  using assms by (simp add: analyze_image_def)

lemma example_decoded: "load_image example_externals [1] = Some example_image"
  by (simp add: load_image_def example_externals_def)

lemma failing_decoded: "load_image failing_externals [1] = Some example_image"
  by (simp add: load_image_def failing_externals_def)

section \<open>Properties of the screenshot classifier\<close>

text \<open>
  Claim C8. For an image of positive height whose contours were found, the classifier
  answers true exactly when the aspect ratio lies in \<open>[0.5, 3.0]\<close>, at least three contours
  are quadrilaterals (four vertices after approximation) of area above 1% of the image
  area, the width is at least 300 and the height at least 200. When the libraries raise, or
  the division by the height does, the answer is true. In the pipeline the answer decides
  only whether the warning is present: the analysis returns a result either way, and the
  layout, colors, typography, interactive elements and assets are the outputs of their
  stages.
\<close>

theorem C8_screenshot_classifier:
  fixes im :: ndimage and contours :: "approx_contour list"
  defines "rects \<equiv>
     length (filter (\<lambda>(n_vertices, area).
                        n_vertices = 4 \<and> area > real (width im * height im) * 0.01) contours)"
  shows "(height im > 0 \<longrightarrow>
            (is_website_screenshot im (Inr contours) \<longleftrightarrow>
               0.5 \<le> real (width im) / real (height im)
               \<and> real (width im) / real (height im) \<le> 3.0
               \<and> rects \<ge> 3 \<and> width im \<ge> 300 \<and> height im \<ge> 200))
       \<and> is_website_screenshot im (Inl e)
       \<and> (height im = 0 \<longrightarrow> is_website_screenshot im found)
       \<and> (load_image ext image_data = Some im \<longrightarrow>
            (\<exists>r. analyze_image ext start_time end_time image_data fname = Inr r
               \<and> warnings r = (if is_website_screenshot im (canny_contours ext im) then []
                               else [''Image may not be a website/app screenshot''])
               \<and> layout r = analyze_layout im (hough_lines_p ext im)
               \<and> colors r = extract_colors (kmeans ext im)
               \<and> typography r = analyze_typography im (image_to_data ext im)
               \<and> interactive_elements r
                   = detect_interactive_elements im (threshold_contours ext im)
               \<and> assets r = catalog_assets (circles_and_contours ext im)))"
proof -
  have a: "height im > 0 \<longrightarrow>
            (is_website_screenshot im (Inr contours) \<longleftrightarrow>
               0.5 \<le> real (width im) / real (height im)
               \<and> real (width im) / real (height im) \<le> 3.0
               \<and> rects \<ge> 3 \<and> width im \<ge> 300 \<and> height im \<ge> 200)"
    unfolding rects_def
    by (simp add: is_website_screenshot_def is_website_screenshot_body_def Let_def
        count_rectangular_filter)
  have b: "is_website_screenshot im (Inl e)"
    by (simp add: is_website_screenshot_def is_website_screenshot_body_def Let_def)
  have c: "height im = 0 \<longrightarrow> is_website_screenshot im found"
    by (simp add: is_website_screenshot_def is_website_screenshot_body_def)
  have d: "load_image ext image_data = Some im \<longrightarrow>
            (\<exists>r. analyze_image ext start_time end_time image_data fname = Inr r
               \<and> warnings r = (if is_website_screenshot im (canny_contours ext im) then []
                               else [''Image may not be a website/app screenshot''])
               \<and> layout r = analyze_layout im (hough_lines_p ext im)
               \<and> colors r = extract_colors (kmeans ext im)
               \<and> typography r = analyze_typography im (image_to_data ext im)
               \<and> interactive_elements r
                   = detect_interactive_elements im (threshold_contours ext im)
               \<and> assets r = catalog_assets (circles_and_contours ext im))"
  proof
    assume "load_image ext image_data = Some im"
    from analyze_image_decoded [OF this, of start_time end_time fname]
    show "\<exists>r. analyze_image ext start_time end_time image_data fname = Inr r
               \<and> warnings r = (if is_website_screenshot im (canny_contours ext im) then []
                               else [''Image may not be a website/app screenshot''])
               \<and> layout r = analyze_layout im (hough_lines_p ext im)
               \<and> colors r = extract_colors (kmeans ext im)
               \<and> typography r = analyze_typography im (image_to_data ext im)
               \<and> interactive_elements r
                   = detect_interactive_elements im (threshold_contours ext im)
               \<and> assets r = catalog_assets (circles_and_contours ext im)"
      unfolding screenshot_warning_def by blast
  qed
  from a b c d show ?thesis by blast
qed

theorem C8_screenshot_classifier_witness:
  "height example_image > 0
   \<and> is_website_screenshot example_image
        (Inr [(4, 10000), (4, 7000), (5, 9000), (4, 100), (4, 6500)])
   \<and> \<not> is_website_screenshot example_image (Inr [(4, 10000)])
   \<and> load_image example_externals [1] = Some example_image
   \<and> (\<exists>r. analyze_image example_externals 0 1 [1] [] = Inr r
          \<and> warnings r = [''Image may not be a website/app screenshot''])"
  using C8_screenshot_classifier [where im = example_image
          and contours = "[(4, 10000), (4, 7000), (5, 9000), (4, 100), (4, 6500)]"]
        C8_screenshot_classifier [where im = example_image and contours = "[(4, 10000)]"
          and ext = example_externals and image_data = "[1]" and start_time = 0
          and end_time = 1 and fname = "[]"]
        example_decoded
  by (auto simp: example_image_def example_externals_def)

section \<open>Properties of the warnings\<close>

text \<open>
  Claim C10. A result has at most one warning; the only possible warning is
  "Image may not be a website/app screenshot", present exactly when the classifier answers
  false. No failure of an extraction stage adds a warning: the warnings are this function
  of the classifier's answer whatever the stages do.
\<close>

theorem C10_warnings:
  assumes "analyze_image ext start_time end_time image_data fname = Inr r"
  shows "\<exists>img. load_image ext image_data = Some img
           \<and> warnings r = (if is_website_screenshot img (canny_contours ext img) then []
                           else [''Image may not be a website/app screenshot''])
           \<and> length (warnings r) \<le> 1
           \<and> set (warnings r) \<subseteq> {''Image may not be a website/app screenshot''}"
proof (cases "load_image ext image_data")
  case None
  from analyze_image_undecoded [OF this] assms show ?thesis by simp
next
  case (Some img)
  from analyze_image_decoded [OF this, of start_time end_time fname] assms
  have "warnings r = (if is_website_screenshot img (canny_contours ext img) then []
                           else [''Image may not be a website/app screenshot''])"
    unfolding screenshot_warning_def by auto
  with Some show ?thesis by auto
qed
theorem C10_warnings_witness:
  "\<exists>r. analyze_image example_externals 0 1 [1] [] = Inr r
       \<and> length (warnings r) \<le> 1
       \<and> set (warnings r) \<subseteq> {''Image may not be a website/app screenshot''}"
proof -
  from analyze_image_decoded [OF example_decoded, of 0 1 "[]"]
  obtain r where h: "analyze_image example_externals 0 1 [1] [] = Inr r" by blast
  from h C10_warnings [OF h] show ?thesis by blast
qed

section \<open>Bounds on the result\<close>

declare bit_length.simps [simp del]

lemma bit_length_0 [simp]: "bit_length 0 = 0"
  by (simp add: bit_length.simps)

lemma bit_length_1 [simp]: "bit_length (Suc 0) = Suc 0"
  by (subst bit_length.simps) simp

lemma bit_length_numeral [simp]:
  "bit_length (numeral k) = Suc (bit_length (numeral k div 2))"
  by (subst bit_length.simps) simp

lemma round_half_even_bounds:
  "\<lfloor>x\<rfloor> \<le> round_half_even x \<and> round_half_even x \<le> \<lfloor>x\<rfloor> + 1"
  by (simp add: round_half_even_def Let_def)

lemma round_half_even_of_int: "round_half_even (of_int k) = k"
  by (simp add: round_half_even_def Let_def)

lemma round_half_even_le:
  assumes "x \<le> of_int k"
  shows "round_half_even x \<le> k"
proof (cases "x = of_int k")
  case True
  then show ?thesis by (simp add: round_half_even_of_int)
next
  case False
  with assms have "x < of_int k" by simp
  then have "\<lfloor>x\<rfloor> < k" by (simp add: floor_less_iff)
  with round_half_even_bounds [of x] show ?thesis by linarith
qed

lemma round_half_even_nonneg:
  assumes "0 \<le> x"
  shows "0 \<le> round_half_even x"
proof -
  have "0 \<le> \<lfloor>x\<rfloor>" using assms by simp
  with round_half_even_bounds [of x] show ?thesis by linarith
qed

lemma float_exponent_unit:
  assumes "0 < a" "a \<le> 1"
  shows "float_exponent a \<le> 0"
proof (cases "1 \<le> a")
  case True
  with assms have "a = 1" by simp
  then show ?thesis by (simp add: float_exponent_def)
next
  case False
  then show ?thesis by (simp add: float_exponent_def)
qed

text \<open>Rounding to a double keeps a value inside the unit interval: 0 and 1 are doubles.\<close>

lemma to_double_unit:
  assumes "0 \<le> x" "x \<le> 1"
  shows "0 \<le> to_double x \<and> to_double x \<le> 1"
proof (cases "x = 0")
  case True
  then show ?thesis by (simp add: to_double_def)
next
  case False
  with assms have pos: "0 < x" by simp
  define n where "n = nat (52 - float_exponent x)"
  have u: "pow2 (float_exponent x - 52) = 1 / 2 ^ n"
    using float_exponent_unit [OF pos assms(2)]
    by (simp add: pow2_def n_def)
  define r where "r = round_half_even (x * 2 ^ n)"
  have d: "to_double x = of_int r / 2 ^ n"
    using pos by (simp add: to_double_def Let_def u r_def)
  have "x * 2 ^ n \<le> of_int (2 ^ n)"
    using assms(2) by (simp add: mult_le_cancel_right1)
  then have "r \<le> 2 ^ n" unfolding r_def by (rule round_half_even_le)
  then have "real_of_int r \<le> 2 ^ n"
    by (metis of_int_le_iff of_int_numeral of_int_power)
  moreover have "0 \<le> r"
    unfolding r_def using pos by (intro round_half_even_nonneg) simp
  ultimately show ?thesis
    unfolding d by (simp add: divide_le_eq)
qed

lemma round2_unit:
  assumes "0 \<le> x" "x \<le> 1"
  shows "0 \<le> round2 x \<and> round2 x \<le> 1"
proof -
  define d where "d = to_double x"
  have d: "0 \<le> d" "d \<le> 1"
    using to_double_unit [OF assms] by (simp_all add: d_def)
  define k where "k = round_half_even (d * 100)"
  have "0 \<le> k"
    unfolding k_def using d(1) by (intro round_half_even_nonneg) simp
  moreover have "k \<le> 100"
    unfolding k_def using d(2) by (intro round_half_even_le) simp
  ultimately have "0 \<le> real_of_int k / 100 \<and> real_of_int k / 100 \<le> 1" by simp
  then have "0 \<le> to_double (real_of_int k / 100) \<and> to_double (real_of_int k / 100) \<le> 1"
    by (intro to_double_unit) simp_all
  then show ?thesis by (simp add: round2_def d_def k_def)
qed

text \<open>The double nearest to 0.525 lies above the decimal tie, so it rounds to 0.53.\<close>

lemma round2_tie_example: "round_half_even (to_double (21 / 40) * 100) = 53"
  by (simp add: to_double_def float_exponent_def pow2_def round_half_even_def Let_def)

lemma mean_unit:
  fixes fs :: "real list"
  assumes "\<forall>x \<in> set fs. 0 \<le> x \<and> x \<le> 1" "fs \<noteq> []"
  shows "0 \<le> sum_list fs / real (length fs) \<and> sum_list fs / real (length fs) \<le> 1"
proof -
  have "0 \<le> sum_list fs" using assms(1) by (simp add: sum_list_nonneg)
  moreover have "sum_list fs \<le> real (length fs)"
    using assms(1) by (induction fs) auto
  moreover have "0 < real (length fs)" using assms(2) by simp
  ultimately show ?thesis by (simp add: divide_le_eq)
qed

lemma calculate_confidence_unit:
  assumes "\<forall>c \<in> set cs. 0 \<le> confidence c \<and> confidence c \<le> 1"
  shows "0 \<le> calculate_confidence l cs ts es \<and> calculate_confidence l cs ts es \<le> 1"
proof -
  define m where "m = sum_list (map confidence cs) / real (length cs)"
  have m: "0 \<le> m \<and> m \<le> 1" if "cs \<noteq> []"
    using mean_unit [of "map confidence cs"] assms that by (simp add: m_def)
  define fs where "fs = [0.8] @ (if cs \<noteq> [] then [m] else [])
                        @ (if ts \<noteq> [] then [0.7 :: real] else [])
                        @ (if es \<noteq> [] then [0.6 :: real] else [])"
  have eq: "calculate_confidence l cs ts es = sum_list fs / real (length fs)"
    by (simp add: calculate_confidence_def Let_def layout_value_nonempty fs_def m_def)
  have "\<forall>x \<in> set fs. 0 \<le> x \<and> x \<le> 1" using m by (auto simp: fs_def)
  moreover have "fs \<noteq> []" by (simp add: fs_def)
  ultimately show ?thesis unfolding eq by (rule mean_unit)
qed

lemma color_percentages_unit:
  assumes "p \<in> set (color_percentages ls)"
  shows "0 \<le> p \<and> p \<le> 1"
proof -
  from assms obtain u where p: "p = real (count_list ls u) / real (length ls)"
    by (auto simp: color_percentages_def np_unique_counts_def)
  have "count_list ls u \<le> length ls" by (rule count_le_length)
  then show ?thesis unfolding p by (simp add: divide_le_eq)
qed

lemma extract_colors_confidence_unit:
  assumes "c \<in> set (extract_colors fit)"
  shows "0 \<le> confidence c \<and> confidence c \<le> 1"
proof (cases fit)
  case (Inl e)
  with assms show ?thesis by (simp add: extract_colors_def)
next
  case (Inr km)
  with assms have "c \<in> set (colors_of_fit km)" by (simp add: extract_colors_def)
  with colors_of_fit_subset obtain center p where
    mem: "(center, p) \<in> set (zip (centers_astype_int (cluster_centers km))
                                  (color_percentages (labels km)))"
    and c: "c = color_info center p"
    by fastforce
  from mem have "p \<in> set (color_percentages (labels km))" by (rule set_zip_rightD)
  from color_percentages_unit [OF this] c show ?thesis
    by (cases center) (simp add: color_info_def)
qed

lemma sort_by_confidence_desc_sorted:
  "sorted_wrt (\<lambda>a b. a \<ge> b) (map confidence (sort_by_confidence_desc cs))"
proof -
  have "sorted (map confidence (sort_key confidence (rev cs)))" by simp
  then have "sorted (rev (map confidence (sort_by_confidence_desc cs)))"
    by (simp add: sort_by_confidence_desc_def rev_map)
  then show ?thesis
    by (simp add: sorted_wrt_rev)
qed

lemma extract_colors_sorted:
  "sorted_wrt (\<lambda>a b. a \<ge> b) (map confidence (extract_colors fit))"
proof (cases fit)
  case (Inl e)
  then show ?thesis by (simp add: extract_colors_def)
next
  case (Inr km)
  have "sorted_wrt (\<lambda>a b. a \<ge> b) (take 6 (map confidence (sort_by_confidence_desc
          (colors_loop (zip (centers_astype_int (cluster_centers km))
             (color_percentages (labels km))) []))))"
    using sort_by_confidence_desc_sorted by (rule sorted_wrt_take)
  with Inr show ?thesis
    by (simp add: extract_colors_def colors_of_fit_def Let_def take_map)
qed

lemma length_extract_colors: "length (extract_colors fit) \<le> 6"
  by (cases fit) (simp_all add: extract_colors_def colors_of_fit_def Let_def)

lemma length_analyze_typography: "length (analyze_typography im found) \<le> 10"
  by (auto simp: analyze_typography_def analyze_typography_body_def split: sum.splits)

lemma length_detect_interactive_elements:
  "length (detect_interactive_elements im found) \<le> 15"
  by (auto simp: detect_interactive_elements_def detect_interactive_elements_body_def
      split: sum.splits)

lemma length_catalog_assets: "length (catalog_assets found) \<le> 10"
  by (auto simp: catalog_assets_def catalog_assets_body_def Let_def split: sum.splits prod.splits)

text \<open>
  Claim C2. In every result the colors are at most 6 and ordered by non-increasing
  confidence, the typography entries are at most 10, the interactive elements at most 15,
  the assets at most 10, and the confidence score lies between 0 and 1.
\<close>

theorem C2_result_bounds:
  assumes "analyze_image ext start_time end_time image_data fname = Inr r"
  shows "length (colors r) \<le> 6
       \<and> sorted_wrt (\<lambda>a b. a \<ge> b) (map confidence (colors r))
       \<and> length (typography r) \<le> 10
       \<and> length (interactive_elements r) \<le> 15
       \<and> length (assets r) \<le> 10
       \<and> 0 \<le> confidence_score r \<and> confidence_score r \<le> 1"
proof (cases "load_image ext image_data")
  case None
  from analyze_image_undecoded [OF this] assms show ?thesis by simp
next
  case (Some img)
  from analyze_image_decoded [OF this, of start_time end_time fname] assms
  have c_eq: "colors r = extract_colors (kmeans ext img)"
    and t_eq: "typography r = analyze_typography img (image_to_data ext img)"
    and e_eq: "interactive_elements r
                = detect_interactive_elements img (threshold_contours ext img)"
    and a_eq: "assets r = catalog_assets (circles_and_contours ext img)"
    and s_eq: "confidence_score r
               = round2 (calculate_confidence (layout r) (colors r) (typography r)
                           (interactive_elements r))"
    by auto
  have "\<forall>c \<in> set (colors r). 0 \<le> confidence c \<and> confidence c \<le> 1"
    unfolding c_eq using extract_colors_confidence_unit by blast
  from calculate_confidence_unit [OF this]
  have "0 \<le> confidence_score r \<and> confidence_score r \<le> 1"
    unfolding s_eq using round2_unit by blast
  then show ?thesis
    unfolding c_eq t_eq e_eq a_eq
    using length_extract_colors extract_colors_sorted length_analyze_typography
      length_detect_interactive_elements length_catalog_assets
    by blast
qed
theorem C2_result_bounds_witness:
  "\<exists>r. analyze_image example_externals 0 1 [1] [] = Inr r
       \<and> length (colors r) \<le> 6
       \<and> sorted_wrt (\<lambda>a b. a \<ge> b) (map confidence (colors r))
       \<and> length (typography r) \<le> 10
       \<and> length (interactive_elements r) \<le> 15
       \<and> length (assets r) \<le> 10
       \<and> 0 \<le> confidence_score r \<and> confidence_score r \<le> 1"
proof -
  from analyze_image_decoded [OF example_decoded, of 0 1 "[]"]
  obtain r where h: "analyze_image example_externals 0 1 [1] [] = Inr r" by blast
  from h C2_result_bounds [OF h] show ?thesis by blast
qed

section \<open>Failure of the pipeline\<close>

text \<open>
  Claim C1. The analysis fails exactly when the image loader returns no image, which is
  when decoding yields nothing or raises. For a decoded image the analysis returns a
  result, and a stage that fails inside contributes its default: no warning (the
  classifier is taken to answer true), the flexbox layout with "unknown" spacing and
  alignment, and the empty list for colors, typography, interactive elements and assets.
\<close>

theorem C1_fails_only_on_decode:
  "((\<exists>e. analyze_image ext start_time end_time image_data fname = Inl e)
      \<longleftrightarrow> load_image ext image_data = None)
   \<and> (load_image ext image_data = None
        \<longleftrightarrow> imdecode ext image_data = Inr None \<or> (\<exists>e. imdecode ext image_data = Inl e))
   \<and> (\<forall>img. load_image ext image_data = Some img \<longrightarrow>
        (\<exists>r. analyze_image ext start_time end_time image_data fname = Inr r
           \<and> ((\<exists>e. is_website_screenshot_body img (canny_contours ext img) = Inl e)
                \<longrightarrow> is_website_screenshot img (canny_contours ext img) \<and> warnings r = [])
           \<and> ((\<exists>e. analyze_layout_body img (hough_lines_p ext img) = Inl e)
                \<longrightarrow> layout r =
                      \<lparr>layout_type = FLEXBOX, grid_structure = None, flexbox_properties = None,
                       spacing = [(''padding'', ''unknown''), (''margin'', ''unknown''),
                                  (''gap'', ''unknown'')],
                       alignment = ''unknown'', responsive_hints = None\<rparr>)
           \<and> ((\<exists>e. kmeans ext img = Inl e) \<longrightarrow> colors r = [])
           \<and> ((\<exists>e. analyze_typography_body img (image_to_data ext img) = Inl e)
                \<longrightarrow> typography r = [])
           \<and> ((\<exists>e. detect_interactive_elements_body img (threshold_contours ext img) = Inl e)
                \<longrightarrow> interactive_elements r = [])
           \<and> ((\<exists>e. catalog_assets_body (circles_and_contours ext img) = Inl e)
                \<longrightarrow> assets r = [])))"
proof (intro conjI allI impI)
  show "(\<exists>e. analyze_image ext start_time end_time image_data fname = Inl e)
          \<longleftrightarrow> load_image ext image_data = None"
  proof (cases "load_image ext image_data")
    case None
    from analyze_image_undecoded [OF this] None show ?thesis by simp
  next
    case (Some img)
    from analyze_image_decoded [OF this, of start_time end_time fname] Some
    show ?thesis by auto
  qed
next
  show "load_image ext image_data = None
        \<longleftrightarrow> imdecode ext image_data = Inr None \<or> (\<exists>e. imdecode ext image_data = Inl e)"
    by (auto simp: load_image_def split: sum.splits)
next
  fix img
  assume "load_image ext image_data = Some img"
  from analyze_image_decoded [OF this, of start_time end_time fname]
  obtain r where r: "analyze_image ext start_time end_time image_data fname = Inr r"
    and w: "warnings r = (if is_website_screenshot img (canny_contours ext img) then []
                           else [screenshot_warning])"
    and l: "layout r = analyze_layout img (hough_lines_p ext img)"
    and c: "colors r = extract_colors (kmeans ext img)"
    and t: "typography r = analyze_typography img (image_to_data ext img)"
    and e: "interactive_elements r
               = detect_interactive_elements img (threshold_contours ext img)"
    and a: "assets r = catalog_assets (circles_and_contours ext img)"
    by blast
  show "\<exists>r. analyze_image ext start_time end_time image_data fname = Inr r
           \<and> ((\<exists>e. is_website_screenshot_body img (canny_contours ext img) = Inl e)
                \<longrightarrow> is_website_screenshot img (canny_contours ext img) \<and> warnings r = [])
           \<and> ((\<exists>e. analyze_layout_body img (hough_lines_p ext img) = Inl e)
                \<longrightarrow> layout r =
                      \<lparr>layout_type = FLEXBOX, grid_structure = None, flexbox_properties = None,
                       spacing = [(''padding'', ''unknown''), (''margin'', ''unknown''),
                                  (''gap'', ''unknown'')],
                       alignment = ''unknown'', responsive_hints = None\<rparr>)
           \<and> ((\<exists>e. kmeans ext img = Inl e) \<longrightarrow> colors r = [])
           \<and> ((\<exists>e. analyze_typography_body img (image_to_data ext img) = Inl e)
                \<longrightarrow> typography r = [])
           \<and> ((\<exists>e. detect_interactive_elements_body img (threshold_contours ext img) = Inl e)
                \<longrightarrow> interactive_elements r = [])
           \<and> ((\<exists>e. catalog_assets_body (circles_and_contours ext img) = Inl e)
                \<longrightarrow> assets r = [])"
  proof (intro exI [of _ r] conjI impI)
    show "analyze_image ext start_time end_time image_data fname = Inr r" by fact
  next
    assume "\<exists>e. is_website_screenshot_body img (canny_contours ext img) = Inl e"
    then show "is_website_screenshot img (canny_contours ext img)"
      by (auto simp: is_website_screenshot_def)
    then show "warnings r = []" using w by simp
  next
    assume "\<exists>e. analyze_layout_body img (hough_lines_p ext img) = Inl e"
    then show "layout r =
                      \<lparr>layout_type = FLEXBOX, grid_structure = None, flexbox_properties = None,
                       spacing = [(''padding'', ''unknown''), (''margin'', ''unknown''),
                                  (''gap'', ''unknown'')],
                       alignment = ''unknown'', responsive_hints = None\<rparr>"
      unfolding l by (auto simp: analyze_layout_def layout_fallback_def)
  next
    assume "\<exists>e. kmeans ext img = Inl e"
    then show "colors r = []" unfolding c by (auto simp: extract_colors_def)
  next
    assume "\<exists>e. analyze_typography_body img (image_to_data ext img) = Inl e"
    then show "typography r = []" unfolding t by (auto simp: analyze_typography_def)
  next
    assume "\<exists>e. detect_interactive_elements_body img (threshold_contours ext img) = Inl e"
    then show "interactive_elements r = []"
      unfolding e by (auto simp: detect_interactive_elements_def)
  next
    assume "\<exists>e. catalog_assets_body (circles_and_contours ext img) = Inl e"
    then show "assets r = []" unfolding a by (auto simp: catalog_assets_def)
  qed
qed

lemma failing_undecoded: "load_image failing_externals [] = None"
  by (simp add: load_image_def failing_externals_def)

theorem C1_fails_only_on_decode_witness:
  "(\<exists>e. analyze_image failing_externals 0 1 [] [] = Inl e)
   \<and> load_image failing_externals [1] = Some example_image
   \<and> (\<exists>r. analyze_image failing_externals 0 1 [1] [] = Inr r
          \<and> warnings r = [] \<and> layout_type (layout r) = FLEXBOX \<and> colors r = []
          \<and> typography r = [] \<and> interactive_elements r = [] \<and> assets r = [])"
proof -
  have bodies:
    "is_website_screenshot_body example_image (canny_contours failing_externals example_image)
       = Inl LibraryError"
    "analyze_layout_body example_image (hough_lines_p failing_externals example_image)
       = Inl LibraryError"
    "kmeans failing_externals example_image = Inl ValueError"
    "analyze_typography_body example_image (image_to_data failing_externals example_image)
       = Inl LibraryError"
    "detect_interactive_elements_body example_image
       (threshold_contours failing_externals example_image) = Inl LibraryError"
    "catalog_assets_body (circles_and_contours failing_externals example_image)
       = Inl LibraryError"
    by (simp_all add: failing_externals_def is_website_screenshot_body_def example_image_def
        analyze_layout_body_def analyze_typography_body_def kmeans_def KMeans_fit_def
        detect_interactive_elements_body_def catalog_assets_body_def)
  from C1_fails_only_on_decode [where ext = failing_externals and image_data = "[]"
         and start_time = 0 and end_time = 1 and fname = "[]"] failing_undecoded
  have a: "\<exists>e. analyze_image failing_externals 0 1 [] [] = Inl e" by blast
  from C1_fails_only_on_decode [where ext = failing_externals and image_data = "[1]"
         and start_time = 0 and end_time = 1 and fname = "[]"] failing_decoded
  obtain r where r: "analyze_image failing_externals 0 1 [1] [] = Inr r"
    and d: "(\<exists>e. is_website_screenshot_body example_image
                    (canny_contours failing_externals example_image) = Inl e)
              \<longrightarrow> warnings r = []"
           "(\<exists>e. analyze_layout_body example_image
                    (hough_lines_p failing_externals example_image) = Inl e)
              \<longrightarrow> layout_type (layout r) = FLEXBOX"
           "(\<exists>e. kmeans failing_externals example_image = Inl e) \<longrightarrow> colors r = []"
           "(\<exists>e. analyze_typography_body example_image
                    (image_to_data failing_externals example_image) = Inl e)
              \<longrightarrow> typography r = []"
           "(\<exists>e. detect_interactive_elements_body example_image
                    (threshold_contours failing_externals example_image) = Inl e)
              \<longrightarrow> interactive_elements r = []"
           "(\<exists>e. catalog_assets_body (circles_and_contours failing_externals example_image)
                    = Inl e)
              \<longrightarrow> assets r = []"
    by fastforce
  from d bodies have "warnings r = [] \<and> layout_type (layout r) = FLEXBOX \<and> colors r = []
          \<and> typography r = [] \<and> interactive_elements r = [] \<and> assets r = []"
    by metis
  with a r failing_decoded show ?thesis by blast
qed

section \<open>Properties of the interactive element detector\<close>

lemma elements_loop_map:
  assumes "\<forall>c \<in> set cs. area_in_range im c \<longrightarrow> \<not> isl (element_of im c)"
  shows "\<exists>es. elements_loop im cs acc = Inr (acc @ es)
              \<and> map Inr es = map (element_of im) (filter (area_in_range im) cs)"
  using assms
proof (induction cs arbitrary: acc)
  case Nil
  then show ?case by simp
next
  case (Cons c cs)
  show ?case
  proof (cases "area_in_range im c")
    case False
    with Cons.IH [of acc] Cons.prems show ?thesis by simp
  next
    case True
    with Cons.prems obtain el where el: "element_of im c = Inr el"
      by (cases "element_of im c") auto
    from Cons.IH [of "acc @ [el]"] Cons.prems
    obtain es where "elements_loop im cs (acc @ [el]) = Inr ((acc @ [el]) @ es)"
      and "map Inr es = map (element_of im) (filter (area_in_range im) cs)"
      by auto
    with True el show ?thesis
      by (intro exI [of _ "el # es"]) simp
  qed
qed

lemma concat_const:
  "concat (map (\<lambda>row. map (\<lambda>col. p) cols) rows) = replicate (length rows * length cols) p"
  by (induction rows) (simp_all add: replicate_add map_replicate_const)

lemma mean_hex_replicate:
  assumes "0 < n"
  shows "mean_hex (replicate n (r, g, b)) = Inr (hex_color (uint r) (uint g) (uint b))"
  using assms by (simp add: mean_hex_def Let_def sum_list_replicate)

text \<open>
  Claim C5. Provided the loop body does not raise for the contours that pass the area
  filter (each has a bounding rectangle of non-zero height that covers at least one pixel,
  as every bounding rectangle of a contour of the image does), the detector emits one
  element for exactly the contours whose area lies strictly between 500 and 10% of the
  image area, in the order of the contours, and keeps the first 15. An emitted element is
  a button when \<open>1.5 \<le> w/h \<le> 6.0\<close> and \<open>20 \<le> h \<le> 100\<close>, else an input when \<open>w/h > 3.0\<close>
  and \<open>h \<le> 50\<close>, else a container; its position and dimensions are those of the bounding
  rectangle.
\<close>

theorem C5_interactive_elements:
  assumes "\<forall>c \<in> set contours.
             500 < contour_area c \<and> contour_area c < real (width im * height im) * 0.1
             \<longrightarrow> (\<exists>element. element_of im c = Inr element)"
  shows "map Inr (detect_interactive_elements im (Inr contours))
           = take 15 (map (element_of im)
               (filter (\<lambda>c. 500 < contour_area c
                            \<and> contour_area c < real (width im * height im) * 0.1) contours))
       \<and> (\<forall>c element x y w h.
             element_of im c = Inr element \<and> bounding_rect c = (x, y, w, h) \<longrightarrow>
               element_type element =
                 (if 1.5 \<le> real_of_int w / real_of_int h \<and> real_of_int w / real_of_int h \<le> 6.0
                     \<and> 20 \<le> h \<and> h \<le> 100 then BUTTON
                  else if real_of_int w / real_of_int h > 3.0 \<and> h \<le> 50 then INPUT
                  else CONTAINER)
               \<and> position element = [(''x'', x), (''y'', y)]
               \<and> dimensions element = [(''width'', w), (''height'', h)])"
proof
  have "\<forall>c \<in> set contours. area_in_range im c \<longrightarrow> \<not> isl (element_of im c)"
    using assms by (auto simp: area_in_range_def)
  from elements_loop_map [OF this, of "[]"]
  obtain es where es: "elements_loop im contours [] = Inr es"
    and m: "map Inr es = map (element_of im) (filter (area_in_range im) contours)"
    by auto
  have d: "detect_interactive_elements im (Inr contours) = take 15 es"
    using es by (simp add: detect_interactive_elements_def detect_interactive_elements_body_def)
  have f: "filter (\<lambda>c. 500 < contour_area c
                        \<and> contour_area c < real (width im * height im) * 0.1) contours
             = filter (area_in_range im) contours"
    by (rule filter_cong) (simp_all add: area_in_range_def)
  show "map Inr (detect_interactive_elements im (Inr contours))
           = take 15 (map (element_of im)
               (filter (\<lambda>c. 500 < contour_area c
                            \<and> contour_area c < real (width im * height im) * 0.1) contours))"
    unfolding f d m [symmetric] by (simp add: take_map)
next
  show "\<forall>c element x y w h.
             element_of im c = Inr element \<and> bounding_rect c = (x, y, w, h) \<longrightarrow>
               element_type element =
                 (if 1.5 \<le> real_of_int w / real_of_int h \<and> real_of_int w / real_of_int h \<le> 6.0
                     \<and> 20 \<le> h \<and> h \<le> 100 then BUTTON
                  else if real_of_int w / real_of_int h > 3.0 \<and> h \<le> 50 then INPUT
                  else CONTAINER)
               \<and> position element = [(''x'', x), (''y'', y)]
               \<and> dimensions element = [(''width'', w), (''height'', h)]"
  proof (intro allI impI)
    fix c element x y w h
    assume "element_of im c = Inr element \<and> bounding_rect c = (x, y, w, h)"
    then obtain bg_color where "element = interactive_element (x, y, w, h) bg_color"
      by (auto simp: element_of_def split: if_splits sum.splits)
    then show "element_type element =
                 (if 1.5 \<le> real_of_int w / real_of_int h \<and> real_of_int w / real_of_int h \<le> 6.0
                     \<and> 20 \<le> h \<and> h \<le> 100 then BUTTON
                  else if real_of_int w / real_of_int h > 3.0 \<and> h \<le> 50 then INPUT
                  else CONTAINER)
               \<and> position element = [(''x'', x), (''y'', y)]
               \<and> dimensions element = [(''width'', w), (''height'', h)]"
      by (simp add: interactive_element_def classify_element_def Let_def)
  qed
qed

lemma example_region:
  "region_pixels example_image x y w h
     = replicate (length (slice_range 600 y (y + h)) * length (slice_range 1024 x (x + w)))
         (255, 255, 255)"
  by (simp add: region_pixels_def example_image_def concat_const)

lemma hex_white: "hex_color 255 255 255 = ''#ffffff''"
  by (simp add: hex_color_def fmt_02x_def hex_digit_def)

lemma mean_hex_white:
  assumes "0 < n"
  shows "mean_hex (replicate n (255, 255, 255)) = Inr ''#ffffff''"
  using mean_hex_replicate [OF assms, of 255 255 255] hex_white by simp

lemma length_slice_range:
  "length (slice_range n start stop) = slice_bound n stop - slice_bound n start"
  by (simp add: slice_range_def)

lemma example_region_mean:
  assumes "slice_bound 600 y < slice_bound 600 (y + h)"
    and "slice_bound 1024 x < slice_bound 1024 (x + w)"
  shows "mean_hex (region_pixels example_image x y w h) = Inr ''#ffffff''"
  unfolding example_region using assms
  by (intro mean_hex_white) (simp add: length_slice_range)

lemma example_elements:
  "element_of example_image \<lparr>contour_area = 4000, bounding_rect = (10, 10, 120, 40)\<rparr>
     = Inr (interactive_element (10, 10, 120, 40) ''#ffffff'')"
  "element_of example_image \<lparr>contour_area = 3000, bounding_rect = (200, 50, 300, 30)\<rparr>
     = Inr (interactive_element (200, 50, 300, 30) ''#ffffff'')"
  "element_of example_image \<lparr>contour_area = 2500, bounding_rect = (5, 300, 50, 50)\<rparr>
     = Inr (interactive_element (5, 300, 50, 50) ''#ffffff'')"
proof -
  have "mean_hex (region_pixels example_image 10 10 120 40) = Inr ''#ffffff''"
    by (rule example_region_mean) (simp_all add: slice_bound_def)
  then show "element_of example_image
               \<lparr>contour_area = 4000, bounding_rect = (10, 10, 120, 40)\<rparr>
             = Inr (interactive_element (10, 10, 120, 40) ''#ffffff'')"
    by (simp add: element_of_def)
  have "mean_hex (region_pixels example_image 200 50 300 30) = Inr ''#ffffff''"
    by (rule example_region_mean) (simp_all add: slice_bound_def)
  then show "element_of example_image
               \<lparr>contour_area = 3000, bounding_rect = (200, 50, 300, 30)\<rparr>
             = Inr (interactive_element (200, 50, 300, 30) ''#ffffff'')"
    by (simp add: element_of_def)
  have "mean_hex (region_pixels example_image 5 300 50 50) = Inr ''#ffffff''"
    by (rule example_region_mean) (simp_all add: slice_bound_def)
  then show "element_of example_image
               \<lparr>contour_area = 2500, bounding_rect = (5, 300, 50, 50)\<rparr>
             = Inr (interactive_element (5, 300, 50, 50) ''#ffffff'')"
    by (simp add: element_of_def)
qed

theorem C5_interactive_elements_witness:
  "map Inr (detect_interactive_elements example_image (Inr example_contours))
     = [Inr (interactive_element (10, 10, 120, 40) ''#ffffff'') :: exn + InteractiveElement,
        Inr (interactive_element (200, 50, 300, 30) ''#ffffff''),
        Inr (interactive_element (5, 300, 50, 50) ''#ffffff'')]
   \<and> element_type (interactive_element (10, 10, 120, 40) ''#ffffff'') = BUTTON
   \<and> element_type (interactive_element (200, 50, 300, 30) ''#ffffff'') = INPUT
   \<and> element_type (interactive_element (5, 300, 50, 50) ''#ffffff'') = CONTAINER"
proof -
  have h: "\<forall>c \<in> set example_contours.
             500 < contour_area c
             \<and> contour_area c < real (width example_image * height example_image) * 0.1
             \<longrightarrow> (\<exists>element. element_of example_image c = Inr element)"
    by (simp add: example_contours_def example_elements)
  have f: "filter (\<lambda>c. 500 < contour_area c
                     \<and> contour_area c < real (width example_image * height example_image) * 0.1)
             example_contours
           = [\<lparr>contour_area = 4000, bounding_rect = (10, 10, 120, 40)\<rparr>,
              \<lparr>contour_area = 3000, bounding_rect = (200, 50, 300, 30)\<rparr>,
              \<lparr>contour_area = 2500, bounding_rect = (5, 300, 50, 50)\<rparr>]"
    by (simp add: example_contours_def example_image_def)
  from C5_interactive_elements [OF h]
  have "map Inr (detect_interactive_elements example_image (Inr example_contours))
          = take 15 (map (element_of example_image)
              (filter (\<lambda>c. 500 < contour_area c
                     \<and> contour_area c < real (width example_image * height example_image) * 0.1)
                 example_contours))"
    by (rule conjunct1)
  then have "map Inr (detect_interactive_elements example_image (Inr example_contours))
     = [Inr (interactive_element (10, 10, 120, 40) ''#ffffff'') :: exn + InteractiveElement,
        Inr (interactive_element (200, 50, 300, 30) ''#ffffff''),
        Inr (interactive_element (5, 300, 50, 50) ''#ffffff'')]"
    unfolding f by (simp add: example_elements)
  moreover have "element_type (interactive_element (10, 10, 120, 40) ''#ffffff'') = BUTTON"
    and "element_type (interactive_element (200, 50, 300, 30) ''#ffffff'') = INPUT"
    and "element_type (interactive_element (5, 300, 50, 50) ''#ffffff'') = CONTAINER"
    by (simp_all add: interactive_element_def classify_element_def Let_def)
  ultimately show ?thesis by blast
qed

section \<open>Properties of the typography extractor\<close>

lemma estimate_font_size_int: "estimate_font_size h = max 12 ((4 * h) div 5)"
proof (cases "0 \<le> h")
  case True
  have "real_of_int h * 0.8 = real_of_int (4 * h) / real_of_int 5" by simp
  then have "\<lfloor>real_of_int h * 0.8\<rfloor> = (4 * h) div 5"
    by (simp only: floor_divide_of_int_eq)
  with True show ?thesis by (simp add: estimate_font_size_def py_int_def)
next
  case False
  then have "real_of_int h * 0.8 < 0" by simp
  then have "\<lceil>real_of_int h * 0.8\<rceil> \<le> 0" by (simp add: ceiling_le_iff)
  moreover have "(4 * h) div 5 < 0" using False by simp
  ultimately show ?thesis using False
    by (simp add: estimate_font_size_def py_int_def)
qed

text \<open>The line height is truncated from the double product: for font size 45 the
  product \<open>45 * 1.4\<close> is the double just below 63.\<close>

lemma double_product_45: "py_int (to_double (45 * double_1_4)) = 62"
  by (simp add: to_double_def float_exponent_def pow2_def round_half_even_def Let_def
      double_1_4_def py_int_def)

lemma line_height_45:
  "font_size (typography_record im txt x y w 57) = ''45px''
   \<and> line_height (typography_record im txt x y w 57) = Some ''62px''"
proof -
  have fs: "estimate_font_size 57 = 45"
    by (simp add: estimate_font_size_def py_int_def)
  show ?thesis
    by (simp add: typography_record_def fs double_product_45 classify_text_def str_int_def
        dec_digit_def Let_def)
qed

lemma typography_loop_map:
  assumes "length (ocr_left d) = n" "length (ocr_top d) = n" "length (ocr_width d) = n"
    "length (ocr_height d) = n" "i + length txts = n"
  shows "typography_loop im d i txts acc =
           Inr (acc @ map (\<lambda>(k, txt). typography_record im txt (ocr_left d ! k) (ocr_top d ! k)
                                       (ocr_width d ! k) (ocr_height d ! k))
                        (filter (\<lambda>(k, txt). py_strip txt \<noteq> [])
                           (zip [i ..< i + length txts] txts)))"
  using assms(5)
proof (induction txts arbitrary: i acc)
  case Nil
  then show ?case by simp
next
  case (Cons s txts)
  from Cons.prems have i: "i < n" and nxt: "Suc i + length txts = n" by simp_all
  have z: "zip [i ..< i + length (s # txts)] (s # txts)
             = (i, s) # zip [Suc i ..< Suc i + length txts] txts"
    by (simp add: upt_conv_Cons del: upt_Suc)
  show ?case
    unfolding z using i assms(1-4) Cons.IH [OF nxt]
    by (simp add: getitem_def)
qed

text \<open>
  Claim C6, as amended. When the OCR columns have the length of the text column, the
  extractor emits one record for each token whose stripped text is non-empty, in scan
  order, and keeps the first 10. The font size of a record is the integer
  \<open>max(12, \<lfloor>0.8 \<times> h\<rfloor>)\<close>, printed with "px"; the record is a bold heading when that
  integer exceeds 24, a semi-bold subheading when it exceeds 18, and normal body text
  otherwise; the text content is the stripped text cut to 100 characters.
\<close>

theorem C6_typography_amended:
  assumes "length (ocr_left d) = length (ocr_text d)"
    and "length (ocr_top d) = length (ocr_text d)"
    and "length (ocr_width d) = length (ocr_text d)"
    and "length (ocr_height d) = length (ocr_text d)"
  shows "analyze_typography im (Inr d) =
           take 10 (map (\<lambda>(k, txt). typography_record im txt (ocr_left d ! k) (ocr_top d ! k)
                                       (ocr_width d ! k) (ocr_height d ! k))
                      (filter (\<lambda>(k, txt). py_strip txt \<noteq> [])
                         (zip [0 ..< length (ocr_text d)] (ocr_text d))))
       \<and> (\<forall>txt x y w h.
             font_size (typography_record im txt x y w h)
               = str_int (max 12 ((4 * h) div 5)) @ ''px''
             \<and> (typo_element_type (typography_record im txt x y w h),
                 font_weight (typography_record im txt x y w h))
               = (if max 12 ((4 * h) div 5) > 24 then (''heading'', ''bold'')
                  else if max 12 ((4 * h) div 5) > 18 then (''subheading'', ''semi-bold'')
                  else (''body'', ''normal''))
             \<and> text_content (typography_record im txt x y w h) = take 100 (py_strip txt)
             \<and> length (text_content (typography_record im txt x y w h)) \<le> 100)"
proof
  from typography_loop_map [OF assms, of 0 "ocr_text d" im "[]"]
  show "analyze_typography im (Inr d) =
           take 10 (map (\<lambda>(k, txt). typography_record im txt (ocr_left d ! k) (ocr_top d ! k)
                                       (ocr_width d ! k) (ocr_height d ! k))
                      (filter (\<lambda>(k, txt). py_strip txt \<noteq> [])
                         (zip [0 ..< length (ocr_text d)] (ocr_text d))))"
    by (simp add: analyze_typography_def analyze_typography_body_def)
next
  show "\<forall>txt x y w h.
             font_size (typography_record im txt x y w h)
               = str_int (max 12 ((4 * h) div 5)) @ ''px''
             \<and> (typo_element_type (typography_record im txt x y w h),
                 font_weight (typography_record im txt x y w h))
               = (if max 12 ((4 * h) div 5) > 24 then (''heading'', ''bold'')
                  else if max 12 ((4 * h) div 5) > 18 then (''subheading'', ''semi-bold'')
                  else (''body'', ''normal''))
             \<and> text_content (typography_record im txt x y w h) = take 100 (py_strip txt)
             \<and> length (text_content (typography_record im txt x y w h)) \<le> 100"
    unfolding typography_record_def estimate_font_size_int
    by (simp add: Let_def classify_text_def split: prod.splits)
qed

theorem C6_typography_amended_witness:
  "length (ocr_left example_ocr) = length (ocr_text example_ocr)
   \<and> length (ocr_top example_ocr) = length (ocr_text example_ocr)
   \<and> length (ocr_width example_ocr) = length (ocr_text example_ocr)
   \<and> length (ocr_height example_ocr) = length (ocr_text example_ocr)
   \<and> analyze_typography example_image (Inr example_ocr)
       = [typography_record example_image [72, 105] 10 10 30 20,
          typography_record example_image [84, 105, 116, 108, 101] 40 100 200 31]
   \<and> font_size (typography_record example_image [84, 105, 116, 108, 101] 40 100 200 31)
       = ''24px''
   \<and> typo_element_type (typography_record example_image [84, 105, 116, 108, 101] 40 100 200 31)
       = ''subheading''"
proof -
  have l: "length (ocr_left example_ocr) = length (ocr_text example_ocr)"
    "length (ocr_top example_ocr) = length (ocr_text example_ocr)"
    "length (ocr_width example_ocr) = length (ocr_text example_ocr)"
    "length (ocr_height example_ocr) = length (ocr_text example_ocr)"
    by (simp_all add: example_ocr_def)
  note t = C6_typography_amended [OF l, of example_image]
  have z: "zip [0 ..< length (ocr_text example_ocr)] (ocr_text example_ocr)
             = [(0, [72, 105]), (1, [32]), (2, [84, 105, 116, 108, 101])]"
    by (simp add: example_ocr_def upt_rec)
  have a: "analyze_typography example_image (Inr example_ocr)
       = [typography_record example_image [72, 105] 10 10 30 20,
          typography_record example_image [84, 105, 116, 108, 101] 40 100 200 31]"
    using t [THEN conjunct1] unfolding z
    by (simp add: py_strip_def py_isspace_def example_ocr_def)
  have b: "font_size (typography_record example_image [84, 105, 116, 108, 101] 40 100 200 31)
             = ''24px''
       \<and> typo_element_type (typography_record example_image [84, 105, 116, 108, 101] 40 100 200 31)
             = ''subheading''"
    using t [THEN conjunct2, rule_format, of "[84, 105, 116, 108, 101]" 40 100 200 31]
    by (simp add: str_int_def dec_digit_def)
  from l a b show ?thesis by blast
qed

text \<open>
  Claim C6 as stated takes the font size to be \<open>max(12, 0.8 \<times> h)\<close> without truncation. For a
  token of height 31 that is 24.8, a heading; the source truncates to 24, a subheading.
\<close>

theorem C6_typography_counterexample:
  "font_size (typography_record example_image [84, 105, 116, 108, 101] 40 100 200 31) = ''24px''
   \<and> (typo_element_type (typography_record example_image [84, 105, 116, 108, 101] 40 100 200 31),
       font_weight (typography_record example_image [84, 105, 116, 108, 101] 40 100 200 31))
      = (''subheading'', ''semi-bold'')
   \<and> spec_font_size 31 = 24.8
   \<and> spec_text_class (spec_font_size 31) = (''heading'', ''bold'')
   \<and> (typo_element_type (typography_record example_image [84, 105, 116, 108, 101] 40 100 200 31),
       font_weight (typography_record example_image [84, 105, 116, 108, 101] 40 100 200 31))
      \<noteq> spec_text_class (spec_font_size 31)"
  by (simp add: typography_record_def estimate_font_size_def py_int_def classify_text_def
      spec_font_size_def spec_text_class_def str_int_def dec_digit_def Let_def)

section \<open>Determinism\<close>

lemma typography_loop_font:
  assumes "typography_loop im d i txts acc = Inr ts"
    and "\<forall>t \<in> set acc. font_family t = ''System font (estimated)''"
  shows "\<forall>t \<in> set ts. font_family t = ''System font (estimated)''"
  using assms
proof (induction txts arbitrary: i acc)
  case Nil
  then show ?case by simp
next
  case (Cons s txts)
  show ?case
  proof (cases "py_strip s \<noteq> []")
    case False
    with Cons.prems Cons.IH [of "i + 1" acc] show ?thesis by simp
  next
    case True
    with Cons.prems(1) obtain x y w h where
      "typography_loop im d (i + 1) txts (acc @ [typography_record im s x y w h]) = Inr ts"
      by (auto split: sum.splits)
    moreover have "\<forall>t \<in> set (acc @ [typography_record im s x y w h]).
                     font_family t = ''System font (estimated)''"
      using Cons.prems(2) by (simp add: typography_record_def Let_def split: prod.splits)
    ultimately show ?thesis by (rule Cons.IH)
  qed
qed

lemma analyze_typography_font:
  assumes "t \<in> set (analyze_typography im found)"
  shows "font_family t = ''System font (estimated)''"
proof (cases "analyze_typography_body im found")
  case (Inl e)
  with assms show ?thesis by (simp add: analyze_typography_def)
next
  case (Inr ts)
  then obtain d ts' where "typography_loop im d 0 (ocr_text d) [] = Inr ts'" "ts = take 10 ts'"
    by (auto simp: analyze_typography_body_def split: sum.splits)
  with typography_loop_font [of im d 0 "ocr_text d" "[]" ts']
  have "\<forall>t \<in> set ts. font_family t = ''System font (estimated)''"
    by (auto dest: in_set_takeD)
  with assms Inr show ?thesis by (simp add: analyze_typography_def)
qed

lemma distinct_within_singleton:
  assumes "distinct ys" "set ys \<subseteq> {a}"
  shows "ys = (if ys = [] then [] else [a])"
proof (cases ys)
  case Nil
  then show ?thesis by simp
next
  case (Cons y ys')
  with assms have "y = a" "a \<notin> set ys'" "set ys' \<subseteq> {a}" by auto
  then have "ys' = []" by (cases ys') auto
  with Cons \<open>y = a\<close> show ?thesis by simp
qed

lemma enumerates_constant:
  assumes "enumerates f" "enumerates g" "\<forall>x \<in> set xs. x = a"
  shows "f xs = g xs"
proof -
  from assms have f: "distinct (f xs)" "set (f xs) = set xs"
    and g: "distinct (g xs)" "set (g xs) = set xs"
    by (simp_all add: enumerates_def)
  from assms(3) have s: "set xs \<subseteq> {a}" by auto
  have "f xs = (if f xs = [] then [] else [a])"
    using f s by (intro distinct_within_singleton) simp_all
  moreover have "g xs = (if g xs = [] then [] else [a])"
    using g s by (intro distinct_within_singleton) simp_all
  moreover have "f xs = [] \<longleftrightarrow> g xs = []"
    using f(2) g(2) by (metis set_empty)
  ultimately show ?thesis by metis
qed

lemma synthesize_style_guide_order:
  assumes "enumerates f" "enumerates g"
    and "\<forall>t \<in> set ts. font_family t = ''System font (estimated)''"
  shows "synthesize_style_guide f cs ts = synthesize_style_guide g cs ts"
proof -
  have "f (map font_family ts) = g (map font_family ts)"
    using assms by (intro enumerates_constant [where a = "''System font (estimated)''"]) auto
  then show ?thesis by (simp add: synthesize_style_guide_def)
qed

lemma load_image_run [simp]:
  "load_image (ext\<lparr>list_of_set := g, numpy_global_rng := n\<rparr>) image_data
     = load_image ext image_data"
  by (simp add: load_image_def)

text \<open>The fit of the color extractor is seeded, so it does not read the global generator
  of the run; an unseeded fit would.\<close>

lemma kmeans_seeded:
  "kmeans (ext\<lparr>list_of_set := g, numpy_global_rng := n\<rparr>) img = kmeans ext img"
  by (simp add: kmeans_def KMeans_fit_def)

lemma unseeded_fit_varies:
  "KMeans_fit (example_externals\<lparr>numpy_global_rng := 42\<rparr>) 8 None 10 example_image
     \<noteq> KMeans_fit (example_externals\<lparr>numpy_global_rng := 7\<rparr>) 8 None 10 example_image"
  by (simp add: KMeans_fit_def example_externals_def example_fit_def misaligned_fit_def)

lemma analyze_image_decoded_prompt:
  assumes "load_image ext image_data = Some img"
  shows "\<exists>r. analyze_image ext start_time end_time image_data fname = Inr r
           \<and> generated_prompt r
               = Some (generate_full_prompt (prompt_templates ext) (r\<lparr>generated_prompt := None\<rparr>))"
  using assms by (simp add: analyze_image_def Let_def)

lemma analyze_image_prompt_time:
  assumes "load_image ext image_data = Some img"
  shows "\<exists>r g. analyze_image ext start_time end_time image_data fname = Inr r
           \<and> generated_prompt r = Some g
           \<and> processing_time_seconds (metadata g) = round2 (end_time - start_time)"
  using assms by (simp add: analyze_image_def Let_def generate_full_prompt_def)

lemma to_double_one: "to_double 1 = 1"
  by (simp add: to_double_def float_exponent_def pow2_def round_half_even_def Let_def)

lemma to_double_two: "to_double 2 = 2"
  by (simp add: to_double_def float_exponent_def pow2_def round_half_even_def Let_def)

lemma round2_one: "round2 1 = 1"
  by (simp add: round2_def to_double_one round_half_even_def Let_def)

lemma round2_two: "round2 2 = 2"
  by (simp add: round2_def to_double_two round_half_even_def Let_def)

lemma enumerates_remdups: "enumerates remdups"
  by (simp add: enumerates_def)

lemma enumerates_rev_remdups: "enumerates (\<lambda>xs. rev (remdups xs))"
  by (simp add: enumerates_def)

text \<open>
  Claim C9, as amended. Take two runs on the same bytes and file name, with any two
  readings of the clock, any two states of the global random generator and any two
  enumeration orders of a set. Either both fail with the same error, or both return a
  response, and the second response is the first with \<open>processing_time\<close> replaced by the
  duration recorded in the second run and the prompt generated again from it: the two
  agree in every field except \<open>processing_time\<close> and the \<open>generated_prompt\<close> that prints it,
  and they are equal when the recorded durations are equal. In particular the color
  extractor, whose clustering is seeded with 42, yields the same ordered list of hex codes
  in both runs.
\<close>

theorem C9_deterministic_amended:
  fixes ext :: externals and other_order :: "string list \<Rightarrow> string list"
    and other_rng :: nat
  assumes "enumerates (list_of_set ext)" and "enumerates other_order"
  defines "ext' \<equiv> ext\<lparr>list_of_set := other_order, numpy_global_rng := other_rng\<rparr>"
  shows "(\<forall>e. analyze_image ext s1 t1 image_data fname = Inl e \<longrightarrow>
              analyze_image ext' s2 t2 image_data fname = Inl e)
       \<and> (\<forall>r1. analyze_image ext s1 t1 image_data fname = Inr r1 \<longrightarrow>
              (\<exists>r2. analyze_image ext' s2 t2 image_data fname = Inr r2
                 \<and> r2 = r1\<lparr>processing_time := processing_time r2,
                            generated_prompt :=
                              Some (generate_full_prompt (prompt_templates ext)
                                      (r1\<lparr>processing_time := processing_time r2,
                                          generated_prompt := None\<rparr>))\<rparr>
                 \<and> (processing_time r2 = processing_time r1 \<longrightarrow> r2 = r1)
                 \<and> map hex_code (colors r2) = map hex_code (colors r1)))
       \<and> map hex_code (extract_colors (KMeans_fit ext' 8 (Some 42) 10 pixels))
           = map hex_code (extract_colors (KMeans_fit ext 8 (Some 42) 10 pixels))"
proof (intro conjI)
  show "map hex_code (extract_colors (KMeans_fit ext' 8 (Some 42) 10 pixels))
           = map hex_code (extract_colors (KMeans_fit ext 8 (Some 42) 10 pixels))"
    by (simp add: ext'_def KMeans_fit_def)
next
  show "\<forall>e. analyze_image ext s1 t1 image_data fname = Inl e \<longrightarrow>
              analyze_image ext' s2 t2 image_data fname = Inl e"
  proof (cases "load_image ext image_data")
    case None
    then have "load_image ext' image_data = None" by (simp add: ext'_def)
    from analyze_image_undecoded [OF None, of s1 t1 fname]
         analyze_image_undecoded [OF this, of s2 t2 fname]
    show ?thesis by simp
  next
    case (Some img)
    from analyze_image_decoded [OF this, of s1 t1 fname] show ?thesis by auto
  qed
next
  show "\<forall>r1. analyze_image ext s1 t1 image_data fname = Inr r1 \<longrightarrow>
              (\<exists>r2. analyze_image ext' s2 t2 image_data fname = Inr r2
                 \<and> r2 = r1\<lparr>processing_time := processing_time r2,
                            generated_prompt :=
                              Some (generate_full_prompt (prompt_templates ext)
                                      (r1\<lparr>processing_time := processing_time r2,
                                          generated_prompt := None\<rparr>))\<rparr>
                 \<and> (processing_time r2 = processing_time r1 \<longrightarrow> r2 = r1)
                 \<and> map hex_code (colors r2) = map hex_code (colors r1))"
  proof (intro allI impI)
    fix r1
    assume r1: "analyze_image ext s1 t1 image_data fname = Inr r1"
    then obtain img where Some: "load_image ext image_data = Some img"
      using analyze_image_undecoded [of ext image_data s1 t1 fname]
      by (cases "load_image ext image_data") auto
    then have Some': "load_image ext' image_data = Some img" by (simp add: ext'_def)
    have k: "kmeans ext' img = kmeans ext img"
      unfolding ext'_def by (rule kmeans_seeded)
    from analyze_image_decoded [OF Some, of s1 t1 fname] r1
    have f1: "warnings r1 = (if is_website_screenshot img (canny_contours ext img) then []
                             else [screenshot_warning])"
      "layout r1 = analyze_layout img (hough_lines_p ext img)"
      "colors r1 = extract_colors (kmeans ext img)"
      "typography r1 = analyze_typography img (image_to_data ext img)"
      "interactive_elements r1 = detect_interactive_elements img (threshold_contours ext img)"
      "assets r1 = catalog_assets (circles_and_contours ext img)"
      "global_styles r1 = analyze_global_styles"
      "style_guide r1 = synthesize_style_guide (list_of_set ext) (colors r1) (typography r1)"
      "component_labels r1 = label_components (interactive_elements r1)"
      "image_info r1 = \<lparr>filename = fname, dimensions_width = width img,
                dimensions_height = height img, channels = 3,
                format = ''detected_from_content''\<rparr>"
      "confidence_score r1
         = round2 (calculate_confidence (layout r1) (colors r1) (typography r1)
                     (interactive_elements r1))"
      by auto
    from analyze_image_decoded_prompt [OF Some, of s1 t1 fname] r1
    have g1: "generated_prompt r1
                = Some (generate_full_prompt (prompt_templates ext)
                          (r1\<lparr>generated_prompt := None\<rparr>))"
      by auto
    from analyze_image_decoded [OF Some', of s2 t2 fname]
    obtain r2 where r2: "analyze_image ext' s2 t2 image_data fname = Inr r2"
      and f2: "warnings r2 = (if is_website_screenshot img (canny_contours ext img) then []
                             else [screenshot_warning])"
        "layout r2 = analyze_layout img (hough_lines_p ext img)"
        "colors r2 = extract_colors (kmeans ext img)"
        "typography r2 = analyze_typography img (image_to_data ext img)"
        "interactive_elements r2
           = detect_interactive_elements img (threshold_contours ext img)"
        "assets r2 = catalog_assets (circles_and_contours ext img)"
        "global_styles r2 = analyze_global_styles"
        "style_guide r2 = synthesize_style_guide other_order (colors r2) (typography r2)"
        "component_labels r2 = label_components (interactive_elements r2)"
        "image_info r2 = \<lparr>filename = fname, dimensions_width = width img,
                  dimensions_height = height img, channels = 3,
                  format = ''detected_from_content''\<rparr>"
        "confidence_score r2
           = round2 (calculate_confidence (layout r2) (colors r2) (typography r2)
                       (interactive_elements r2))"
      unfolding k [symmetric] by (auto simp: ext'_def)
    from analyze_image_decoded_prompt [OF Some', of s2 t2 fname] r2
    have g2: "generated_prompt r2
                = Some (generate_full_prompt (prompt_templates ext)
                          (r2\<lparr>generated_prompt := None\<rparr>))"
      by (auto simp: ext'_def)
    have "\<forall>t \<in> set (analyze_typography img (image_to_data ext img)).
            font_family t = ''System font (estimated)''"
      using analyze_typography_font by blast
    note sg = synthesize_style_guide_order [OF assms(2) assms(1) this,
                where cs = "extract_colors (kmeans ext img)"]
    have base: "r2\<lparr>generated_prompt := None\<rparr>
                  = r1\<lparr>processing_time := processing_time r2, generated_prompt := None\<rparr>"
      by (rule AnalysisResponse.equality) (simp_all add: f1 f2 sg)
    have eq: "r2 = r1\<lparr>processing_time := processing_time r2,
                       generated_prompt :=
                         Some (generate_full_prompt (prompt_templates ext)
                                 (r1\<lparr>processing_time := processing_time r2,
                                     generated_prompt := None\<rparr>))\<rparr>"
      unfolding base [symmetric]
      by (rule AnalysisResponse.equality) (simp_all add: f1 f2 sg g2)
    have same: "r2 = r1" if "processing_time r2 = processing_time r1"
    proof -
      have "r1\<lparr>processing_time := processing_time r1, generated_prompt := None\<rparr>
              = r1\<lparr>generated_prompt := None\<rparr>"
        by simp
      with eq that g1 show ?thesis by simp
    qed
    have "map hex_code (colors r2) = map hex_code (colors r1)" by (simp add: f1 f2)
    with r2 eq same
    show "\<exists>r2. analyze_image ext' s2 t2 image_data fname = Inr r2
                 \<and> r2 = r1\<lparr>processing_time := processing_time r2,
                            generated_prompt :=
                              Some (generate_full_prompt (prompt_templates ext)
                                      (r1\<lparr>processing_time := processing_time r2,
                                          generated_prompt := None\<rparr>))\<rparr>
                 \<and> (processing_time r2 = processing_time r1 \<longrightarrow> r2 = r1)
                 \<and> map hex_code (colors r2) = map hex_code (colors r1)"
      by blast
  qed
qed

theorem C9_deterministic_amended_witness:
  "enumerates (list_of_set example_externals) \<and> enumerates (\<lambda>xs. rev (remdups xs))
   \<and> (\<exists>r1 r2. analyze_image example_externals 0 1 [1] [] = Inr r1
         \<and> analyze_image
             (example_externals\<lparr>list_of_set := (\<lambda>xs. rev (remdups xs)),
                                numpy_global_rng := 7\<rparr>)
             5 7 [1] [] = Inr r2
         \<and> r2 = r1\<lparr>processing_time := processing_time r2,
                    generated_prompt :=
                      Some (generate_full_prompt (prompt_templates example_externals)
                              (r1\<lparr>processing_time := processing_time r2,
                                  generated_prompt := None\<rparr>))\<rparr>
         \<and> map hex_code (colors r2) = map hex_code (colors r1))"
proof -
  have a: "enumerates (list_of_set example_externals)"
    by (simp add: example_externals_def enumerates_remdups)
  from analyze_image_decoded [OF example_decoded, of 0 1 "[]"]
  obtain r1 where r1: "analyze_image example_externals 0 1 [1] [] = Inr r1" by blast
  from C9_deterministic_amended [OF a enumerates_rev_remdups,
         where other_rng = 7 and ?s1.0 = 0 and ?t1.0 = 1 and image_data = "[1]"
           and fname = "[]" and ?s2.0 = 5 and ?t2.0 = 7] r1
  show ?thesis using a enumerates_rev_remdups by blast
qed

text \<open>
  Claim C9 as stated excepts only \<open>processing_time\<close>. The generated prompt records the
  processing time in its metadata, so two runs that take different times differ in
  \<open>generated_prompt\<close> as well.
\<close>

theorem C9_deterministic_counterexample:
  "\<not> isl (analyze_image example_externals 0 1 [1] [])
   \<and> \<not> isl (analyze_image example_externals 0 2 [1] [])
   \<and> (projr (analyze_image example_externals 0 1 [1] []))\<lparr>processing_time := 0\<rparr>
       \<noteq> (projr (analyze_image example_externals 0 2 [1] []))\<lparr>processing_time := 0\<rparr>"
proof -
  from analyze_image_prompt_time [OF example_decoded, of 0 1 "[]"]
  obtain r1 g1 where r1: "analyze_image example_externals 0 1 [1] [] = Inr r1"
    "generated_prompt r1 = Some g1" "processing_time_seconds (metadata g1) = 1"
    by (auto simp: round2_one)
  from analyze_image_prompt_time [OF example_decoded, of 0 2 "[]"]
  obtain r2 g2 where r2: "analyze_image example_externals 0 2 [1] [] = Inr r2"
    "generated_prompt r2 = Some g2" "processing_time_seconds (metadata g2) = 2"
    by (auto simp: round2_two)
  have "r1\<lparr>processing_time := 0\<rparr> \<noteq> r2\<lparr>processing_time := 0\<rparr>"
  proof
    assume "r1\<lparr>processing_time := 0\<rparr> = r2\<lparr>processing_time := 0\<rparr>"
    then have "generated_prompt (r1\<lparr>processing_time := 0\<rparr>)
                 = generated_prompt (r2\<lparr>processing_time := 0\<rparr>)"
      by simp
    with r1 r2 have "g1 = g2" by simp
    with r1(3) r2(3) show False by simp
  qed
  with r1(1) r2(1) show ?thesis by simp
qed

end
